theory Spec2Isabelle
  imports Main
begin

section \<open>Path and query helpers of the Go standard library\<close>

text \<open>
  \<^verbatim>\<open>tokenCacheFile\<close> builds its result with \<^verbatim>\<open>url.QueryEscape\<close> and
  \<^verbatim>\<open>filepath.Join\<close>. Both are pure string functions of the standard library; they are
  written out here (Unix separator) after their documented rules, so that the path the
  program uses can be computed rather than assumed.

  \<^verbatim>\<open>QueryEscape\<close> keeps letters, digits and \<^verbatim>\<open>- _ . ~\<close>, turns a space into \<^verbatim>\<open>+\<close> and
  every other byte into \<^verbatim>\<open>%XX\<close> with upper-case hexadecimal digits.
\<close>

definition unreserved :: "char \<Rightarrow> bool" where
  "unreserved c =
     (let n = (of_char c :: nat)
      in (48 \<le> n \<and> n \<le> 57) \<or> (65 \<le> n \<and> n \<le> 90) \<or> (97 \<le> n \<and> n \<le> 122)
         \<or> c = CHR ''-'' \<or> c = CHR ''_'' \<or> c = CHR ''.'' \<or> c = CHR ''~'')"

definition upperhex :: "nat \<Rightarrow> char" where
  "upperhex n = ''0123456789ABCDEF'' ! (n mod 16)"

definition QueryEscape :: "string \<Rightarrow> string" where
  "QueryEscape s =
     concat (map (\<lambda>c. if unreserved c then [c]
                       else if c = CHR '' '' then ''+''
                       else [CHR ''%'', upperhex (of_char c div 16), upperhex (of_char c mod 16)]) s)"

text \<open>
  \<^verbatim>\<open>filepath.Clean\<close>: split at the separator, drop empty and \<^verbatim>\<open>.\<close> elements, let
  \<^verbatim>\<open>..\<close> cancel the element before it (dropping it at the root, keeping it at the front
  of a relative path), and return \<^verbatim>\<open>.\<close> for an empty result. \<^verbatim>\<open>filepath.Join\<close> skips
  leading empty elements, joins the rest with the separator and cleans the result.
\<close>

fun splitSep :: "string \<Rightarrow> string list" where
  "splitSep [] = [[]]"
| "splitSep (c # cs) =
     (if c = CHR ''/'' then [] # splitSep cs
      else (case splitSep cs of [] \<Rightarrow> [[c]] | e # es \<Rightarrow> (c # e) # es))"

fun joinSep :: "string list \<Rightarrow> string" where
  "joinSep [] = []"
| "joinSep [e] = e"
| "joinSep (e # es) = e @ ''/'' @ joinSep es"

fun cleanElems :: "bool \<Rightarrow> string list \<Rightarrow> string list \<Rightarrow> string list" where
  "cleanElems rooted out [] = rev out"
| "cleanElems rooted out (e # es) =
     (if e = [] \<or> e = ''.'' then cleanElems rooted out es
      else if e = ''..'' then
        (case out of
           [] \<Rightarrow> if rooted then cleanElems rooted [] es else cleanElems rooted [e] es
         | t # ts \<Rightarrow> if t = ''..'' then cleanElems rooted (e # out) es
                     else cleanElems rooted ts es)
      else cleanElems rooted (e # out) es)"

definition Clean :: "string \<Rightarrow> string" where
  "Clean p =
     (case p of [] \<Rightarrow> ''.''
      | c # _ \<Rightarrow>
          (let rooted = (c = CHR ''/''); es = cleanElems rooted [] (splitSep p)
           in if rooted then ''/'' @ joinSep es
              else if es = [] then ''.'' else joinSep es))"

definition Join :: "string list \<Rightarrow> string" where
  "Join elem = (case dropWhile (\<lambda>e. e = []) elem of [] \<Rightarrow> [] | es \<Rightarrow> Clean (joinSep es))"

section \<open>Data of the program and of the libraries it calls\<close>

text \<open>Go's \<^verbatim>\<open>error\<close> values are carried as their message; \<^verbatim>\<open>nil\<close> is the absence of one.\<close>

type_synonym error = string

text \<open>The three command-line flags, as \<^verbatim>\<open>flag.Parse\<close> leaves them.\<close>

record flags =
  flagServiceAccount :: string
  flagClientID :: string
  flagInput :: string

record Token =
  AccessToken :: string
  TokenType :: string
  RefreshToken :: string
  Expiry :: int

record Config =
  ClientID :: string
  ClientSecret :: string
  RedirectURL :: string
  Scopes :: "string list"

datatype AuthCodeOption = AccessTypeOnline | AccessTypeOffline

text \<open>\<^verbatim>\<open>config.TokenSource(ctx, tok)\<close> pairs the configuration with the token it starts from.\<close>

datatype TokenSource = TokenSource Config Token

datatype ClientOption = WithCredentialsFile string | WithTokenSource TokenSource

text \<open>
  What a client authenticates with: the contents of a credentials file, or a token
  source. A client handle is identified by it.
\<close>

datatype Credentials = CredentialsJSON string | CredentialsTokenSource TokenSource

datatype ImageAnnotatorClient = ImageAnnotatorClient Credentials

datatype Image = Image (Content: string)

datatype ImageContext = ImageContext (LanguageHints: "string list")

record EntityAnnotation =
  Mid :: string
  Locale :: string
  Description :: string

text \<open>
  The library calls whose result the program cannot compute are parameters: the OAuth2
  and Vision packages and the JSON codec of \<^verbatim>\<open>oauth2.Token\<close>.
\<close>

record env =
  DefaultAuthScopes :: "string list"
  ConfigFromJSON :: "string \<Rightarrow> string list \<Rightarrow> error + Config"
  AuthCodeURL :: "Config \<Rightarrow> string \<Rightarrow> AuthCodeOption \<Rightarrow> string"
  Exchange :: "Config \<Rightarrow> string \<Rightarrow> error + Token"
  decodeToken :: "string \<Rightarrow> error + Token"
  encodeToken :: "Token \<Rightarrow> error + string"
  dial :: "Credentials \<Rightarrow> error option"
  annotateTexts :: "ImageAnnotatorClient \<Rightarrow> Image \<Rightarrow> ImageContext option \<Rightarrow> int
                      \<Rightarrow> error + EntityAnnotation list"

section \<open>The world the process runs in\<close>

text \<open>
  The file tree maps a cleaned path to a directory or to a regular file with its
  contents; both carry the permission bits they were created with. \<open>faults\<close> says which
  system calls the operating system refuses for a reason the tree does not show
  (permissions, a full disk, an I/O error). \<open>stdin\<close> is the input still unread, as the
  whitespace-separated words \<^verbatim>\<open>fmt.Scan\<close> sees. \<open>trace\<close> records, in order, every
  file-system call, every write to standard output, every read of standard input and
  every call that leaves the process.
\<close>

datatype node = Dir nat | File nat string

datatype sysop = SysMkdir string | SysOpen string | SysCreate string | SysRead string | SysWrite string

datatype event =
    MkdirAllEv string nat
  | OpenEv string
  | OpenFileEv string nat
  | ReadEv string
  | WriteEv string string
  | StdoutEv string
  | ScanEv
  | ExchangeEv Config string
  | DialEv Credentials
  | DetectTextsEv Image "ImageContext option" int

record world =
  fs :: "string \<rightharpoonup> node"
  faults :: "sysop \<Rightarrow> error option"
  stdin :: "string list"
  trace :: "event list"

datatype os_File = Fd string

text \<open>
  A function that may call \<^verbatim>\<open>log.Fatalf\<close> returns an outcome: \<open>Fatal\<close> with the message
  when the process has been terminated (exit status 1), \<open>Ret\<close> with its result otherwise.
\<close>

datatype 'a outcome = Fatal string | Ret 'a

definition emit :: "event \<Rightarrow> world \<Rightarrow> world" where
  "emit e w = w\<lparr>trace := trace w @ [e]\<rparr>"

definition stdout :: "world \<Rightarrow> string" where
  "stdout w = concat (map (\<lambda>e. case e of StdoutEv s \<Rightarrow> s | _ \<Rightarrow> []) (trace w))"

definition newline :: string where
  "newline = [CHR 0x0A]"

subsection \<open>File-system calls\<close>

fun prefixes_from :: "string \<Rightarrow> string list \<Rightarrow> string list" where
  "prefixes_from pre [] = []"
| "prefixes_from pre (e # es) =
     (let p = (if pre = [] then e else if pre = ''/'' then pre @ e else pre @ ''/'' @ e)
      in p # prefixes_from p es)"

definition ancestors :: "string \<Rightarrow> string list" where
  "ancestors q =
     (if q = ''.'' then []
      else case q of [] \<Rightarrow> []
        | c # _ \<Rightarrow> if c = CHR ''/'' then prefixes_from ''/'' (filter (\<lambda>e. e \<noteq> []) (splitSep q))
                   else prefixes_from [] (splitSep q))"

definition parentDir :: "string \<Rightarrow> string" where
  "parentDir q =
     (case rev (splitSep q) of [] \<Rightarrow> ''.'' | [_] \<Rightarrow> ''.''
      | _ # r \<Rightarrow> (let d = joinSep (rev r) in if d = [] then ''/'' else d))"

definition is_dir :: "(string \<rightharpoonup> node) \<Rightarrow> string \<Rightarrow> bool" where
  "is_dir t p =
     (if p = ''.'' \<or> p = ''/'' then True
      else case t p of Some (Dir _) \<Rightarrow> True | _ \<Rightarrow> False)"

text \<open>
  \<^verbatim>\<open>os.MkdirAll\<close> walks the path from its first element: an existing directory is
  passed, a regular file in the way is an error, a missing element is created with the
  given permission bits unless the system refuses.
\<close>

fun mkdirs :: "(sysop \<Rightarrow> error option) \<Rightarrow> nat \<Rightarrow> string list \<Rightarrow> (string \<rightharpoonup> node)
                 \<Rightarrow> (string \<rightharpoonup> node) \<times> error option" where
  "mkdirs flt perm [] t = (t, None)"
| "mkdirs flt perm (q # qs) t =
     (case t q of
        Some (Dir _) \<Rightarrow> mkdirs flt perm qs t
      | Some (File _ _) \<Rightarrow> (t, Some (''mkdir '' @ q @ '': not a directory''))
      | None \<Rightarrow>
          (case flt (SysMkdir q) of
             Some e \<Rightarrow> (t, Some e)
           | None \<Rightarrow> mkdirs flt perm qs (t(q \<mapsto> Dir perm))))"

definition os_MkdirAll :: "string \<Rightarrow> nat \<Rightarrow> world \<Rightarrow> world \<times> error option" where
  "os_MkdirAll path perm w =
     (let w1 = emit (MkdirAllEv (Clean path) perm) w
      in case mkdirs (faults w) perm (ancestors (Clean path)) (fs w) of
           (t, err) \<Rightarrow> (w1\<lparr>fs := t\<rparr>, err))"

text \<open>\<^verbatim>\<open>os.Open\<close>: open for reading. A directory can be opened; reading it fails.\<close>

definition os_Open :: "string \<Rightarrow> world \<Rightarrow> world \<times> (error + os_File)" where
  "os_Open path w =
     (let q = Clean path; w1 = emit (OpenEv q) w
      in case fs w q of
           None \<Rightarrow> (w1, Inl (''open '' @ path @ '': no such file or directory''))
         | Some _ \<Rightarrow>
             (case faults w (SysOpen q) of
                Some e \<Rightarrow> (w1, Inl e)
              | None \<Rightarrow> (w1, Inr (Fd q))))"

text \<open>
  \<^verbatim>\<open>os.OpenFile(path, O_RDWR|O_CREATE|O_TRUNC, perm)\<close>: an existing regular file is
  emptied and keeps its permission bits; a missing one is created empty with \<open>perm\<close>,
  which needs its parent directory.
\<close>

definition os_OpenFile :: "string \<Rightarrow> nat \<Rightarrow> world \<Rightarrow> world \<times> (error + os_File)" where
  "os_OpenFile path perm w =
     (let q = Clean path; w1 = emit (OpenFileEv q perm) w
      in case fs w q of
           Some (Dir _) \<Rightarrow> (w1, Inl (''open '' @ path @ '': is a directory''))
         | Some (File m _) \<Rightarrow>
             (case faults w (SysCreate q) of
                Some e \<Rightarrow> (w1, Inl e)
              | None \<Rightarrow> (w1\<lparr>fs := (fs w)(q \<mapsto> File m [])\<rparr>, Inr (Fd q)))
         | None \<Rightarrow>
             (if is_dir (fs w) (parentDir q) then
                (case faults w (SysCreate q) of
                   Some e \<Rightarrow> (w1, Inl e)
                 | None \<Rightarrow> (w1\<lparr>fs := (fs w)(q \<mapsto> File perm [])\<rparr>, Inr (Fd q)))
              else (w1, Inl (''open '' @ path @ '': no such file or directory''))))"

text \<open>Reading a whole file through its handle, and appending to it.\<close>

definition file_read :: "os_File \<Rightarrow> world \<Rightarrow> world \<times> (error + string)" where
  "file_read f w =
     (case f of Fd q \<Rightarrow>
        (let w1 = emit (ReadEv q) w
         in case fs w q of
              Some (File _ c) \<Rightarrow>
                (case faults w (SysRead q) of
                   Some e \<Rightarrow> (w1, Inl e)
                 | None \<Rightarrow> (w1, Inr c))
            | Some (Dir _) \<Rightarrow> (w1, Inl (''read '' @ q @ '': is a directory''))
            | None \<Rightarrow> (w1, Inl (''read '' @ q @ '': bad file descriptor''))))"

definition file_write :: "os_File \<Rightarrow> string \<Rightarrow> world \<Rightarrow> world \<times> error option" where
  "file_write f b w =
     (case f of Fd q \<Rightarrow>
        (let w1 = emit (WriteEv q b) w
         in case fs w q of
              Some (File m c) \<Rightarrow>
                (case faults w (SysWrite q) of
                   Some e \<Rightarrow> (w1, Some e)
                 | None \<Rightarrow> (w1\<lparr>fs := (fs w)(q \<mapsto> File m (c @ b))\<rparr>, None))
            | _ \<Rightarrow> (w1, Some (''write '' @ q @ '': bad file descriptor''))))"

definition ioutil_ReadFile :: "string \<Rightarrow> world \<Rightarrow> world \<times> (error + string)" where
  "ioutil_ReadFile path w =
     (case os_Open path w of
        (w1, Inl err) \<Rightarrow> (w1, Inl err)
      | (w1, Inr f) \<Rightarrow> file_read f w1)"

subsection \<open>Console\<close>

text \<open>
  \<^verbatim>\<open>fmt.Printf\<close> and \<^verbatim>\<open>fmt.Println\<close> write to standard output; the program ignores their
  results. \<^verbatim>\<open>fmt.Scan(&code)\<close> takes the next word of standard input and fails at the end
  of input.
\<close>

definition fmt_Print :: "string \<Rightarrow> world \<Rightarrow> world" where
  "fmt_Print s w = emit (StdoutEv s) w"

definition fmt_Println :: "string \<Rightarrow> world \<Rightarrow> world" where
  "fmt_Println s w = fmt_Print (s @ newline) w"

definition fmt_Scan :: "world \<Rightarrow> world \<times> (error + string)" where
  "fmt_Scan w =
     (let w1 = emit ScanEv w
      in case stdin w of
           [] \<Rightarrow> (w1, Inl ''EOF'')
         | code # rest \<Rightarrow> (w1\<lparr>stdin := rest\<rparr>, Inr code))"

subsection \<open>Library calls that touch the world\<close>

text \<open>
  \<^verbatim>\<open>json.NewDecoder(f).Decode(t)\<close> reads the file and decodes a token from it;
  \<^verbatim>\<open>json.NewEncoder(f).Encode(token)\<close> encodes the token and writes it with a trailing
  newline. Both return an error value.
\<close>

definition json_Decode :: "env \<Rightarrow> os_File \<Rightarrow> world \<Rightarrow> world \<times> (error + Token)" where
  "json_Decode E f w =
     (case file_read f w of
        (w1, Inl err) \<Rightarrow> (w1, Inl err)
      | (w1, Inr c) \<Rightarrow> (w1, decodeToken E c))"

definition json_Encode :: "env \<Rightarrow> os_File \<Rightarrow> Token \<Rightarrow> world \<Rightarrow> world \<times> error option" where
  "json_Encode E f token w =
     (case encodeToken E token of
        Inl err \<Rightarrow> (w, Some err)
      | Inr s \<Rightarrow> file_write f (s @ newline) w)"

definition oauth2_Exchange :: "env \<Rightarrow> Config \<Rightarrow> string \<Rightarrow> world \<Rightarrow> world \<times> (error + Token)" where
  "oauth2_Exchange E config code w = (emit (ExchangeEv config code) w, Exchange E config code)"

text \<open>
  \<^verbatim>\<open>vision.NewImageAnnotatorClient\<close>: with \<^verbatim>\<open>option.WithCredentialsFile\<close> the library
  reads the file itself before it connects.
\<close>

definition connect :: "env \<Rightarrow> Credentials \<Rightarrow> world \<Rightarrow> world \<times> (error + ImageAnnotatorClient)" where
  "connect E c w =
     (let w1 = emit (DialEv c) w
      in case dial E c of
           Some err \<Rightarrow> (w1, Inl err)
         | None \<Rightarrow> (w1, Inr (ImageAnnotatorClient c)))"

definition NewImageAnnotatorClient ::
    "env \<Rightarrow> ClientOption \<Rightarrow> world \<Rightarrow> world \<times> (error + ImageAnnotatorClient)" where
  "NewImageAnnotatorClient E opt w =
     (case opt of
        WithCredentialsFile path \<Rightarrow>
          (case ioutil_ReadFile path w of
             (w1, Inl err) \<Rightarrow> (w1, Inl err)
           | (w1, Inr b) \<Rightarrow> connect E (CredentialsJSON b) w1)
      | WithTokenSource ts \<Rightarrow> connect E (CredentialsTokenSource ts) w)"

text \<open>\<^verbatim>\<open>vision.NewImageFromReader\<close> reads everything from the reader into the image.\<close>

definition NewImageFromReader :: "os_File \<Rightarrow> world \<Rightarrow> world \<times> (error + Image)" where
  "NewImageFromReader f w =
     (case file_read f w of
        (w1, Inl err) \<Rightarrow> (w1, Inl err)
      | (w1, Inr c) \<Rightarrow> (w1, Inr (Image c)))"

definition DetectTexts ::
    "env \<Rightarrow> ImageAnnotatorClient \<Rightarrow> Image \<Rightarrow> ImageContext option \<Rightarrow> int \<Rightarrow> world
       \<Rightarrow> world \<times> (error + EntityAnnotation list)" where
  "DetectTexts E cl img ictx maxResults w =
     (emit (DetectTextsEv img ictx maxResults) w, annotateTexts E cl img ictx maxResults)"

section \<open>The program\<close>

text \<open>
  \<^verbatim>\<open>tokenCacheFile\<close>: the result of \<^verbatim>\<open>os.MkdirAll\<close> is dropped, and the error returned is
  always \<^verbatim>\<open>nil\<close>.
\<close>

definition tokenCacheFile :: "world \<Rightarrow> world \<times> (string \<times> error option)" where
  "tokenCacheFile w =
     (let tokenCacheDir = ''./credentials''
      in case os_MkdirAll tokenCacheDir 448 w of
           (w1, _) \<Rightarrow> (w1, (Join [tokenCacheDir, QueryEscape ''cache.json''], None)))"

text \<open>
  \<^verbatim>\<open>tokenFromFile\<close>: on a decoding error the source returns the half-filled token with
  the error; its only caller looks at the error alone, so the model returns the error.
\<close>

definition tokenFromFile :: "env \<Rightarrow> string \<Rightarrow> world \<Rightarrow> world \<times> (error + Token)" where
  "tokenFromFile E file w =
     (case os_Open file w of
        (w1, Inl err) \<Rightarrow> (w1, Inl err)
      | (w1, Inr f) \<Rightarrow> json_Decode E f w1)"

text \<open>\<^verbatim>\<open>saveToken\<close>: the open is checked, the result of \<^verbatim>\<open>Encode\<close> is dropped.\<close>

definition saveToken :: "env \<Rightarrow> string \<Rightarrow> Token \<Rightarrow> world \<Rightarrow> world \<times> unit outcome" where
  "saveToken E file token w =
     (let w1 = fmt_Print (''Saving credential file to: '' @ file @ newline) w
      in case os_OpenFile file 384 w1 of
           (w2, Inl err) \<Rightarrow> (w2, Fatal (''Unable to cache oauth token: '' @ err))
         | (w2, Inr f) \<Rightarrow>
             (case json_Encode E f token w2 of
                (w3, _) \<Rightarrow> (w3, Ret ())))"

definition getTokenFromWeb :: "env \<Rightarrow> Config \<Rightarrow> world \<Rightarrow> world \<times> Token outcome" where
  "getTokenFromWeb E config w =
     (let authURL = AuthCodeURL E config ''state-token'' AccessTypeOffline;
          w1 = fmt_Print (''Go to the following link in your browser then type the ''
                           @ ''authorization code: '' @ newline @ authURL @ newline) w
      in case fmt_Scan w1 of
           (w2, Inl err) \<Rightarrow> (w2, Fatal (''Unable to read authorization code '' @ err))
         | (w2, Inr code) \<Rightarrow>
             (case oauth2_Exchange E config code w2 of
                (w3, Inl err) \<Rightarrow> (w3, Fatal (''Unable to retrieve token from web '' @ err))
              | (w3, Inr tok) \<Rightarrow> (w3, Ret tok)))"

definition getToken :: "env \<Rightarrow> Config \<Rightarrow> world \<Rightarrow> world \<times> (error + Token) outcome" where
  "getToken E config w =
     (case tokenCacheFile w of
        (w1, (cacheFile, Some err)) \<Rightarrow>
          (w1, Ret (Inl (''unable to get path to cached credential file. '' @ err)))
      | (w1, (cacheFile, None)) \<Rightarrow>
          (case tokenFromFile E cacheFile w1 of
             (w2, Inr tok) \<Rightarrow> (w2, Ret (Inr tok))
           | (w2, Inl _) \<Rightarrow>
               (case getTokenFromWeb E config w2 of
                  (w3, Fatal msg) \<Rightarrow> (w3, Fatal msg)
                | (w3, Ret tok) \<Rightarrow>
                    (case saveToken E cacheFile tok w3 of
                       (w4, Fatal msg) \<Rightarrow> (w4, Fatal msg)
                     | (w4, Ret _) \<Rightarrow> (w4, Ret (Inr tok))))))"

definition visionClient ::
    "env \<Rightarrow> flags \<Rightarrow> world \<Rightarrow> world \<times> (error + ImageAnnotatorClient) outcome" where
  "visionClient E fl w =
     (if flagServiceAccount fl \<noteq> [] then
        (case NewImageAnnotatorClient E (WithCredentialsFile (flagServiceAccount fl)) w of
           (w1, r) \<Rightarrow> (w1, Ret r))
      else
        (case ioutil_ReadFile (flagClientID fl) w of
           (w1, Inl err) \<Rightarrow> (w1, Ret (Inl (''unable to read client id file: '' @ err)))
         | (w1, Inr b) \<Rightarrow>
             (case ConfigFromJSON E b (DefaultAuthScopes E) of
                Inl err \<Rightarrow> (w1, Ret (Inl (''unable to parse client id file to config: '' @ err)))
              | Inr config \<Rightarrow>
                  (case getToken E config w1 of
                     (w2, Fatal msg) \<Rightarrow> (w2, Fatal msg)
                   | (w2, Ret (Inl err)) \<Rightarrow> (w2, Ret (Inl err))
                   | (w2, Ret (Inr tok)) \<Rightarrow>
                       (case NewImageAnnotatorClient E
                               (WithTokenSource (TokenSource config tok)) w2 of
                          (w3, r) \<Rightarrow> (w3, Ret r))))))"

text \<open>The loop of \<^verbatim>\<open>main\<close> over the annotations.\<close>

fun printTexts :: "EntityAnnotation list \<Rightarrow> world \<Rightarrow> world" where
  "printTexts [] w = w"
| "printTexts (t # ts) w = printTexts ts (fmt_Println (Description t) w)"

text \<open>
  \<^verbatim>\<open>main\<close> after \<^verbatim>\<open>flag.Parse\<close>. \<open>Ret ()\<close> is the return from \<^verbatim>\<open>main\<close>, exit status 0.
\<close>

definition main :: "env \<Rightarrow> flags \<Rightarrow> world \<Rightarrow> world \<times> unit outcome" where
  "main E fl w =
     (if flagServiceAccount fl = [] \<and> flagClientID fl = [] then
        (w, Fatal ''either -service_account or -client_id must be specified'')
      else if flagServiceAccount fl \<noteq> [] \<and> flagClientID fl \<noteq> [] then
        (w, Fatal ''-service_account and -client_id are mutually exclusive'')
      else if flagInput fl = [] then
        (w, Fatal ''-input needs to be specified'')
      else
        (case visionClient E fl w of
           (w1, Fatal msg) \<Rightarrow> (w1, Fatal msg)
         | (w1, Ret (Inl err)) \<Rightarrow> (w1, Fatal (''Failed to create client: '' @ err))
         | (w1, Ret (Inr cl)) \<Rightarrow>
             (case os_Open (flagInput fl) w1 of
                (w2, Inl err) \<Rightarrow> (w2, Fatal (''Failed to read file: '' @ err))
              | (w2, Inr file) \<Rightarrow>
                  (case NewImageFromReader file w2 of
                     (w3, Inl err) \<Rightarrow> (w3, Fatal (''Failed to create image entity: '' @ err))
                   | (w3, Inr img) \<Rightarrow>
                       (case DetectTexts E cl img None (- 1) w3 of
                          (w4, Inl err) \<Rightarrow> (w4, Fatal (''Error detecting text: '' @ err))
                        | (w4, Inr texts) \<Rightarrow>
                            (printTexts texts (fmt_Println ''Text:'' w4), Ret ()))))))"

section \<open>Observations on a run\<close>

text \<open>The detection calls recorded in a trace.\<close>

definition is_detect :: "event \<Rightarrow> bool" where
  "is_detect e = (case e of DetectTextsEv _ _ _ \<Rightarrow> True | _ \<Rightarrow> False)"

definition detections :: "world \<Rightarrow> event list" where
  "detections w = filter is_detect (trace w)"

text \<open>
  \<open>quiet w w'\<close>: the world \<open>w'\<close> continues the trace of \<open>w\<close> and none of the events
  added is a detection call.
\<close>

definition quiet :: "world \<Rightarrow> world \<Rightarrow> bool" where
  "quiet w w' = (\<exists>evs. trace w' = trace w @ evs \<and> filter is_detect evs = [])"

text \<open>The two messages of the interactive flow, as they reach standard output.\<close>

definition prompt :: "env \<Rightarrow> Config \<Rightarrow> string" where
  "prompt E config =
     ''Go to the following link in your browser then type the authorization code: ''
       @ newline @ AuthCodeURL E config ''state-token'' AccessTypeOffline @ newline"

definition saving :: string where
  "saving = ''Saving credential file to: credentials/cache.json'' @ newline"

section \<open>An example environment\<close>

text \<open>
  A small environment on which the program can be run: an OAuth2 service that accepts
  one authorization code, a token codec, a Vision service that finds three texts, and
  worlds with and without a cached token.
\<close>

definition exToken :: Token where
  "exToken = \<lparr>AccessToken = ''ya29.new'', TokenType = ''Bearer'',
               RefreshToken = ''1//new'', Expiry = 1500003600\<rparr>"

definition exCached :: Token where
  "exCached = \<lparr>AccessToken = ''ya29.old'', TokenType = ''Bearer'',
                RefreshToken = ''1//old'', Expiry = 1500000000\<rparr>"

definition exTexts :: "EntityAnnotation list" where
  "exTexts = [\<lparr>Mid = [], Locale = ''en'', Description = ''hello world''\<rparr>,
              \<lparr>Mid = [], Locale = [], Description = ''hello''\<rparr>,
              \<lparr>Mid = [], Locale = [], Description = ''world''\<rparr>]"

definition exScopes :: "string list" where
  "exScopes = [''https://www.googleapis.com/auth/cloud-platform'',
               ''https://www.googleapis.com/auth/cloud-vision'']"

definition exConfig :: Config where
  "exConfig = \<lparr>ClientID = ''id'', ClientSecret = ''secret'',
                RedirectURL = ''urn:ietf:wg:oauth:2.0:oob'', Scopes = exScopes\<rparr>"

definition exEnv :: env where
  "exEnv = \<lparr>
     DefaultAuthScopes = exScopes,
     ConfigFromJSON = (\<lambda>b scopes.
        if b = ''{installed}'' then Inr (exConfig\<lparr>Scopes := scopes\<rparr>)
        else Inl ''unexpected end of JSON input''),
     AuthCodeURL = (\<lambda>c st opt. ''https://accounts.example/auth?client_id='' @ ClientID c
                                  @ ''&state='' @ st),
     Exchange = (\<lambda>c code. if code = ''4/AbCd'' then Inr exToken else Inl ''invalid_grant''),
     decodeToken = (\<lambda>s. if s = ''{access_token:ya29.old}'' then Inr exCached
                         else Inl ''invalid character''),
     encodeToken = (\<lambda>t. Inr (''{access_token:'' @ AccessToken t @ ''}'')),
     dial = (\<lambda>c. None),
     annotateTexts = (\<lambda>cl img ictx n. Inr exTexts)\<rparr>"

definition exWorld :: world where
  "exWorld = \<lparr>
     fs = [''sa.json'' \<mapsto> File 384 ''{service_account}'',
           ''client.json'' \<mapsto> File 384 ''{installed}'',
           ''photo.png'' \<mapsto> File 420 ''PNG''],
     faults = (\<lambda>c. None),
     stdin = [''4/AbCd''],
     trace = []\<rparr>"

definition exWorldCached :: world where
  "exWorldCached = exWorld\<lparr>fs := (fs exWorld)(''credentials'' \<mapsto> Dir 448,
       ''credentials/cache.json'' \<mapsto> File 384 ''{access_token:ya29.old}'')\<rparr>"

definition exWorldStale :: world where
  "exWorldStale = exWorld\<lparr>fs := (fs exWorld)(''credentials'' \<mapsto> Dir 448,
       ''credentials/cache.json'' \<mapsto> File 384 ''garbage'')\<rparr>"

text \<open>A world whose disk is full: the cache file can be opened, writing to it fails.\<close>

definition exWorldFull :: world where
  "exWorldFull = exWorld\<lparr>
     fs := (fs exWorld)(''credentials'' \<mapsto> Dir 448),
     faults := (\<lambda>c. if c = SysWrite ''credentials/cache.json''
                      then Some ''write credentials/cache.json: no space left on device''
                      else None)\<rparr>"

text \<open>A world in which nobody types an authorization code.\<close>

definition exWorldNoInput :: world where
  "exWorldNoInput = exWorld\<lparr>stdin := []\<rparr>"

definition exFlagsSA :: flags where
  "exFlagsSA = \<lparr>flagServiceAccount = ''sa.json'', flagClientID = [], flagInput = ''photo.png''\<rparr>"

definition exFlagsOAuth :: flags where
  "exFlagsOAuth = \<lparr>flagServiceAccount = [], flagClientID = ''client.json'',
                    flagInput = ''photo.png''\<rparr>"

section \<open>Basic facts\<close>

lemma cache_path: "Join [''./credentials'', QueryEscape ''cache.json''] = ''credentials/cache.json''"
  by code_simp

lemma clean_dir: "Clean ''./credentials'' = ''credentials''"
  by code_simp

lemma clean_cache: "Clean ''credentials/cache.json'' = ''credentials/cache.json''"
  by code_simp

lemma clean_dot_cache: "Clean ''./credentials/cache.json'' = ''credentials/cache.json''"
  by code_simp

lemma anc_dir: "ancestors ''credentials'' = [''credentials'']"
  by code_simp

lemma parent_cache: "parentDir ''credentials/cache.json'' = ''credentials''"
  by code_simp

lemma mkdirs_other: "q \<notin> set qs \<Longrightarrow> fst (mkdirs flt perm qs t) q = t q"
  by (induction qs arbitrary: t) (auto split: option.splits node.splits)

lemma tokenCacheFile_eq:
  "tokenCacheFile w =
     (w\<lparr>fs := fst (mkdirs (faults w) 448 [''credentials''] (fs w)),
        trace := trace w @ [MkdirAllEv ''credentials'' 448]\<rparr>,
      (''credentials/cache.json'', None))"
  by (simp add: tokenCacheFile_def os_MkdirAll_def emit_def clean_dir anc_dir cache_path
           split: prod.splits)



lemma cache_ne_dir: "''credentials/cache.json'' \<noteq> ''credentials''"
  by simp

lemma mkdirs_cache:
  "fst (mkdirs flt perm [''credentials''] t) ''credentials/cache.json'' = t ''credentials/cache.json''"
  by (rule mkdirs_other) simp

lemma is_dir_after:
  assumes "flt (SysMkdir ''credentials'') = None"
    and "t ''credentials'' = None \<or> (\<exists>m. t ''credentials'' = Some (Dir m))"
  shows "is_dir (fst (mkdirs flt perm [''credentials''] t)) ''credentials''"
  using assms by (auto simp add: is_dir_def)

lemma tokenFromFile_frame:
  "\<exists>evs. fst (tokenFromFile E p w) = w\<lparr>trace := trace w @ evs\<rparr>
         \<and> set evs \<subseteq> {OpenEv (Clean p), ReadEv (Clean p)}"
proof (cases "fs w (Clean p)")
  case None
  then have "fst (tokenFromFile E p w) = w\<lparr>trace := trace w @ [OpenEv (Clean p)]\<rparr>"
    by (simp add: tokenFromFile_def os_Open_def emit_def Let_def)
  then show ?thesis by (intro exI [of _ "[OpenEv (Clean p)]"]) simp
next
  case (Some n)
  show ?thesis
  proof (cases "faults w (SysOpen (Clean p))")
    case (Some e)
    with \<open>fs w (Clean p) = Some n\<close>
    have "fst (tokenFromFile E p w) = w\<lparr>trace := trace w @ [OpenEv (Clean p)]\<rparr>"
      by (simp add: tokenFromFile_def os_Open_def emit_def Let_def)
    then show ?thesis by (intro exI [of _ "[OpenEv (Clean p)]"]) simp
  next
    case None
    with \<open>fs w (Clean p) = Some n\<close>
    have "fst (tokenFromFile E p w) = w\<lparr>trace := trace w @ [OpenEv (Clean p), ReadEv (Clean p)]\<rparr>"
      by (simp add: tokenFromFile_def os_Open_def json_Decode_def file_read_def emit_def Let_def
               split: node.splits option.splits)
    then show ?thesis by (intro exI [of _ "[OpenEv (Clean p), ReadEv (Clean p)]"]) simp
  qed
qed

lemma tokenFromFile_absent:
  "fs w (Clean p) = None \<Longrightarrow> \<exists>e. snd (tokenFromFile E p w) = Inl e"
  by (simp add: tokenFromFile_def os_Open_def emit_def Let_def)

lemma tokenFromFile_undecodable:
  "fs w (Clean p) = Some (File m c) \<Longrightarrow> decodeToken E c = Inl e
     \<Longrightarrow> \<exists>e'. snd (tokenFromFile E p w) = Inl e'"
  by (simp add: tokenFromFile_def os_Open_def json_Decode_def file_read_def emit_def Let_def
           split: option.splits)

lemma tokenFromFile_hit:
  "fs w (Clean p) = Some (File m c) \<Longrightarrow> faults w (SysOpen (Clean p)) = None
     \<Longrightarrow> faults w (SysRead (Clean p)) = None
     \<Longrightarrow> tokenFromFile E p w
           = (w\<lparr>trace := trace w @ [OpenEv (Clean p), ReadEv (Clean p)]\<rparr>, decodeToken E c)"
  by (simp add: tokenFromFile_def os_Open_def json_Decode_def file_read_def emit_def Let_def)

lemma getTokenFromWeb_ok:
  "stdin w = code # rest \<Longrightarrow> Exchange E config code = Inr tok
     \<Longrightarrow> getTokenFromWeb E config w
           = (w\<lparr>stdin := rest,
                 trace := trace w @ [StdoutEv (prompt E config), ScanEv, ExchangeEv config code]\<rparr>,
              Ret tok)"
  by (simp add: getTokenFromWeb_def fmt_Print_def fmt_Scan_def oauth2_Exchange_def emit_def
                Let_def prompt_def)

lemma saveToken_ok:
  assumes "fs w (Clean p) = None \<and> is_dir (fs w) (parentDir (Clean p)) \<and> m = 384
           \<or> (\<exists>c. fs w (Clean p) = Some (File m c))"
    and "faults w (SysCreate (Clean p)) = None" and "faults w (SysWrite (Clean p)) = None"
    and "encodeToken E tok = Inr s"
  shows "saveToken E p tok w
           = (w\<lparr>fs := (fs w)(Clean p \<mapsto> File m (s @ newline)),
                 trace := trace w @ [StdoutEv (''Saving credential file to: '' @ p @ newline),
                                     OpenFileEv (Clean p) 384, WriteEv (Clean p) (s @ newline)]\<rparr>,
              Ret ())"
  using assms
  by (auto simp add: saveToken_def fmt_Print_def os_OpenFile_def json_Encode_def file_write_def
                     emit_def Let_def)



lemma getToken_no_error: "snd (getToken E config w) \<noteq> Ret (Inl e)"
  by (simp add: getToken_def tokenCacheFile_eq split: prod.splits sum.splits outcome.splits)

lemma visionClient_oauth_errors:
  assumes "flagServiceAccount fl = []" and "snd (visionClient E fl w) = Ret (Inl err)"
  shows "(\<exists>e. err = ''unable to read client id file: '' @ e)
       \<or> (\<exists>e. err = ''unable to parse client id file to config: '' @ e)
       \<or> (\<exists>c. dial E c = Some err)"
proof (cases "ioutil_ReadFile (flagClientID fl) w")
  case (Pair w1 r)
  show ?thesis
  proof (cases r)
    case (Inl e)
    with Pair assms have "err = ''unable to read client id file: '' @ e"
      by (simp add: visionClient_def)
    then show ?thesis by blast
  next
    case (Inr b)
    show ?thesis
    proof (cases "ConfigFromJSON E b (DefaultAuthScopes E)")
      case (Inl e)
      with Pair Inr assms have "err = ''unable to parse client id file to config: '' @ e"
        by (simp add: visionClient_def)
      then show ?thesis by blast
    next
      case cfg: (Inr config)
      obtain w2 r2 where g: "getToken E config w1 = (w2, r2)" by (cases "getToken E config w1")
      have ne: "\<And>e. r2 \<noteq> Ret (Inl e)" using getToken_no_error [of E config w1] g by simp
      show ?thesis
      proof (cases r2)
        case (Fatal m)
        with Pair Inr cfg g assms show ?thesis by (simp add: visionClient_def)
      next
        case (Ret x)
        with ne obtain tok where x: "x = Inr tok" by (cases x) auto
        from Pair Inr cfg g assms Ret x
        have "snd (connect E (CredentialsTokenSource (TokenSource config tok)) w2) = Inl err"
          by (simp add: visionClient_def NewImageAnnotatorClient_def split: prod.splits)
        then have "dial E (CredentialsTokenSource (TokenSource config tok)) = Some err"
          by (simp add: connect_def Let_def split: option.splits)
        then show ?thesis by blast
      qed
    qed
  qed
qed



lemma getTokenFromWeb_eof:
  "stdin w = [] \<Longrightarrow>
     getTokenFromWeb E config w
       = (w\<lparr>trace := trace w @ [StdoutEv (prompt E config), ScanEv]\<rparr>,
          Fatal ''Unable to read authorization code EOF'')"
  by (simp add: getTokenFromWeb_def fmt_Print_def fmt_Scan_def emit_def Let_def prompt_def)

lemma getTokenFromWeb_exchange_fail:
  "stdin w = code # rest \<Longrightarrow> Exchange E config code = Inl e \<Longrightarrow>
     getTokenFromWeb E config w
       = (w\<lparr>stdin := rest,
             trace := trace w @ [StdoutEv (prompt E config), ScanEv, ExchangeEv config code]\<rparr>,
          Fatal (''Unable to retrieve token from web '' @ e))"
  by (simp add: getTokenFromWeb_def fmt_Print_def fmt_Scan_def oauth2_Exchange_def emit_def
                Let_def prompt_def)

lemma saveToken_frame:
  "\<exists>t post r. saveToken E p tok w
       = (w\<lparr>fs := t,
             trace := trace w @ [StdoutEv (''Saving credential file to: '' @ p @ newline),
                                 OpenFileEv (Clean p) 384] @ post\<rparr>, r)
     \<and> (r = Ret () \<or> (\<exists>e. r = Fatal (''Unable to cache oauth token: '' @ e)))"
proof -
  let ?w1 = "fmt_Print (''Saving credential file to: '' @ p @ newline) w"
  let ?ev = "[StdoutEv (''Saving credential file to: '' @ p @ newline),
              OpenFileEv (Clean p) 384]"
  obtain w2 r2 where o: "os_OpenFile p 384 ?w1 = (w2, r2)" by (cases "os_OpenFile p 384 ?w1")
  have "w2 = w\<lparr>fs := fs w2, trace := trace w @ ?ev @ []\<rparr>"
    using o
    by (auto simp add: os_OpenFile_def fmt_Print_def emit_def Let_def
             split: option.splits node.splits if_splits)
  then obtain t where t: "w2 = w\<lparr>fs := t, trace := trace w @ ?ev @ []\<rparr>" by blast
  show ?thesis
  proof (cases r2)
    case (Inl e)
    with o t have "saveToken E p tok w
        = (w\<lparr>fs := t, trace := trace w @ ?ev @ []\<rparr>,
           Fatal (''Unable to cache oauth token: '' @ e))"
      by (simp add: saveToken_def)
    then show ?thesis by blast
  next
    case (Inr f)
    obtain w3 r3 where en: "json_Encode E f tok w2 = (w3, r3)" by (cases "json_Encode E f tok w2")
    have "\<exists>t' post. w3 = w\<lparr>fs := t', trace := trace w @ ?ev @ post\<rparr>"
    proof (cases "encodeToken E tok")
      case (Inl e)
      with en t have "w3 = w\<lparr>fs := t, trace := trace w @ ?ev @ []\<rparr>"
        by (simp add: json_Encode_def)
      then show ?thesis by blast
    next
      case enc: (Inr s)
      obtain q where q: "f = Fd q" by (cases f)
      from en enc q t
      have "w3 = w\<lparr>fs := fs w3, trace := trace w @ ?ev @ [WriteEv q (s @ newline)]\<rparr>"
        by (auto simp add: json_Encode_def file_write_def emit_def Let_def
                 split: option.splits node.splits)
      then show ?thesis by blast
    qed
    then obtain t' post where "w3 = w\<lparr>fs := t', trace := trace w @ ?ev @ post\<rparr>" by blast
    with o Inr en
    have "saveToken E p tok w = (w\<lparr>fs := t', trace := trace w @ ?ev @ post\<rparr>, Ret ())"
      by (simp add: saveToken_def)
    then show ?thesis by blast
  qed
qed

lemma getToken_miss_web:
  assumes miss: "fs w ''credentials/cache.json'' = None
                 \<or> (\<exists>m c e. fs w ''credentials/cache.json'' = Some (File m c)
                               \<and> decodeToken E c = Inl e)"
  shows "\<exists>evs. set evs \<subseteq> {OpenEv ''credentials/cache.json'', ReadEv ''credentials/cache.json''}
     \<and> getToken E config w
       = (case getTokenFromWeb E config
                 (w\<lparr>fs := fst (mkdirs (faults w) 448 [''credentials''] (fs w)),
                    trace := trace w @ MkdirAllEv ''credentials'' 448 # evs\<rparr>) of
            (w3, Fatal msg) \<Rightarrow> (w3, Fatal msg)
          | (w3, Ret tok) \<Rightarrow>
              (case saveToken E ''credentials/cache.json'' tok w3 of
                 (w4, Fatal msg) \<Rightarrow> (w4, Fatal msg)
               | (w4, Ret _) \<Rightarrow> (w4, Ret (Inr tok))))"
proof -
  let ?cache = "''credentials/cache.json''"
  let ?w1 = "w\<lparr>fs := fst (mkdirs (faults w) 448 [''credentials''] (fs w)),
               trace := trace w @ [MkdirAllEv ''credentials'' 448]\<rparr>"
  have tc: "tokenCacheFile w = (?w1, (?cache, None))"
    by (rule tokenCacheFile_eq)
  obtain evs where fr: "fst (tokenFromFile E ?cache ?w1) = ?w1\<lparr>trace := trace ?w1 @ evs\<rparr>"
    and evs: "set evs \<subseteq> {OpenEv ?cache, ReadEv ?cache}"
    using tokenFromFile_frame [of E ?cache ?w1] by (auto simp add: clean_cache)
  let ?w2 = "?w1\<lparr>trace := trace ?w1 @ evs\<rparr>"
  have "\<exists>e. snd (tokenFromFile E ?cache ?w1) = Inl e"
    using miss
  proof
    assume "fs w ?cache = None"
    then show ?thesis
      by (intro tokenFromFile_absent) (simp add: clean_cache mkdirs_cache del: mkdirs.simps)
  next
    assume "\<exists>m c e. fs w ?cache = Some (File m c) \<and> decodeToken E c = Inl e"
    then obtain m c e where "fs w ?cache = Some (File m c)" "decodeToken E c = Inl e" by blast
    then show ?thesis
      by (intro tokenFromFile_undecodable [of _ _ m c _ e])
         (simp_all add: clean_cache mkdirs_cache del: mkdirs.simps)
  qed
  then obtain e where tf: "tokenFromFile E ?cache ?w1 = (?w2, Inl e)"
    using fr by (cases "tokenFromFile E ?cache ?w1") auto
  have w2: "?w2 = w\<lparr>fs := fst (mkdirs (faults w) 448 [''credentials''] (fs w)),
                    trace := trace w @ MkdirAllEv ''credentials'' 448 # evs\<rparr>"
    by (simp del: mkdirs.simps)
  have "getToken E config w
       = (case getTokenFromWeb E config ?w2 of
            (w3, Fatal msg) \<Rightarrow> (w3, Fatal msg)
          | (w3, Ret tok) \<Rightarrow>
              (case saveToken E ''credentials/cache.json'' tok w3 of
                 (w4, Fatal msg) \<Rightarrow> (w4, Fatal msg)
               | (w4, Ret _) \<Rightarrow> (w4, Ret (Inr tok))))"
    by (simp only: getToken_def tc tf prod.case option.case sum.case)
  then show ?thesis using evs unfolding w2 by blast
qed


section \<open>Configuration errors\<close>

text \<open>
  C1. When the two credential flags are both set or both empty, \<^verbatim>\<open>main\<close> ends in a fatal
  configuration error and leaves the world as it found it: no file-system call, no
  console access and no call out of the process is recorded, so neither the client
  construction nor the opening of the image nor the detection is reached.
\<close>

theorem main_credential_flags_fatal:
  assumes "(flagServiceAccount fl = []) = (flagClientID fl = [])"
  shows "main E fl w =
           (w, Fatal (if flagServiceAccount fl = []
                      then ''either -service_account or -client_id must be specified''
                      else ''-service_account and -client_id are mutually exclusive''))
         \<and> trace (fst (main E fl w)) = trace w \<and> fs (fst (main E fl w)) = fs w"
  using assms by (simp add: main_def)

theorem main_credential_flags_fatal_witness:
  "main exEnv (exFlagsSA\<lparr>flagClientID := ''client.json''\<rparr>) exWorld =
     (exWorld, Fatal ''-service_account and -client_id are mutually exclusive'')
   \<and> main exEnv (exFlagsSA\<lparr>flagServiceAccount := []\<rparr>) exWorld =
     (exWorld, Fatal ''either -service_account or -client_id must be specified'')"
  using main_credential_flags_fatal [of "exFlagsSA\<lparr>flagClientID := ''client.json''\<rparr>" exEnv exWorld]
        main_credential_flags_fatal [of "exFlagsSA\<lparr>flagServiceAccount := []\<rparr>" exEnv exWorld]
  by (simp add: exFlagsSA_def)

text \<open>
  C2. With exactly one credential flag set and an empty \<^verbatim>\<open>-input\<close>, \<^verbatim>\<open>main\<close> ends in a
  fatal configuration error before \<^verbatim>\<open>visionClient\<close> is called: the world is unchanged, so
  no credential file has been read and the token cache has not been touched.
\<close>

theorem main_empty_input_fatal:
  assumes "(flagServiceAccount fl = []) \<noteq> (flagClientID fl = [])"
    and "flagInput fl = []"
  shows "main E fl w = (w, Fatal ''-input needs to be specified'')
         \<and> trace (fst (main E fl w)) = trace w \<and> fs (fst (main E fl w)) = fs w"
  using assms by (auto simp add: main_def)

theorem main_empty_input_fatal_witness:
  "main exEnv (exFlagsSA\<lparr>flagInput := []\<rparr>) exWorld =
     (exWorld, Fatal ''-input needs to be specified'')
   \<and> main exEnv (exFlagsOAuth\<lparr>flagInput := []\<rparr>) exWorld =
     (exWorld, Fatal ''-input needs to be specified'')"
  using main_empty_input_fatal [of "exFlagsSA\<lparr>flagInput := []\<rparr>" exEnv exWorld]
        main_empty_input_fatal [of "exFlagsOAuth\<lparr>flagInput := []\<rparr>" exEnv exWorld]
  by (simp add: exFlagsSA_def exFlagsOAuth_def)

section \<open>The token cache\<close>

text \<open>
  C8. For every world \<^verbatim>\<open>tokenCacheFile\<close> returns the same path with a \<^verbatim>\<open>nil\<close> error:
  \<^verbatim>\<open>credentials/cache.json\<close>, the cleaned spelling of \<^verbatim>\<open>./credentials/cache.json\<close>, which
  names the same file. Computing it calls \<^verbatim>\<open>os.MkdirAll\<close> on \<^verbatim>\<open>./credentials\<close> with mode
  0700 (448): a missing directory is created with that mode when the system allows it,
  and a tree that already has an entry of that name is left as it is.
\<close>

theorem tokenCacheFile_fixed_path:
  "snd (tokenCacheFile w) = (''credentials/cache.json'', None)
   \<and> Clean ''./credentials/cache.json'' = fst (snd (tokenCacheFile w))
   \<and> (fs w ''credentials'' = None \<and> faults w (SysMkdir ''credentials'') = None
        \<longrightarrow> fs (fst (tokenCacheFile w)) = (fs w)(''credentials'' \<mapsto> Dir 448))
   \<and> (fs w ''credentials'' \<noteq> None \<longrightarrow> fs (fst (tokenCacheFile w)) = fs w)
   \<and> trace (fst (tokenCacheFile w)) = trace w @ [MkdirAllEv ''credentials'' 448]"
  by (auto simp add: tokenCacheFile_eq clean_dot_cache split: option.splits node.splits)

theorem tokenCacheFile_fixed_path_witness:
  "snd (tokenCacheFile exWorld) = (''credentials/cache.json'', None)
   \<and> fs exWorld ''credentials'' = None \<and> faults exWorld (SysMkdir ''credentials'') = None
   \<and> fs (fst (tokenCacheFile exWorld)) ''credentials'' = Some (Dir 448)
   \<and> fs exWorldCached ''credentials'' \<noteq> None
   \<and> fs (fst (tokenCacheFile exWorldCached)) = fs exWorldCached"
proof -
  have a: "fs exWorld ''credentials'' = None \<and> faults exWorld (SysMkdir ''credentials'') = None"
    by (simp add: exWorld_def)
  have b: "fs exWorldCached ''credentials'' \<noteq> None"
    by (simp add: exWorldCached_def)
  from a tokenCacheFile_fixed_path [of exWorld]
  have c: "fs (fst (tokenCacheFile exWorld)) = (fs exWorld)(''credentials'' \<mapsto> Dir 448)"
    by blast
  from b tokenCacheFile_fixed_path [of exWorldCached]
  have d: "fs (fst (tokenCacheFile exWorldCached)) = fs exWorldCached"
    by blast
  from tokenCacheFile_fixed_path [of exWorld]
  have e: "snd (tokenCacheFile exWorld) = (''credentials/cache.json'', None)"
    by blast
  show ?thesis using a b c d e by simp
qed


text \<open>
  C5. When the cache file exists, can be opened and read, and decodes to a token,
  \<^verbatim>\<open>getToken\<close> returns that token. The only calls made are the \<^verbatim>\<open>MkdirAll\<close>, the opening
  and the reading of the cache file: nothing is written to standard output (no
  authorization URL), standard input is not read, and the cache file keeps its contents.
\<close>

theorem getToken_cache_hit:
  assumes "fs w ''credentials/cache.json'' = Some (File m c)"
    and "faults w (SysOpen ''credentials/cache.json'') = None"
    and "faults w (SysRead ''credentials/cache.json'') = None"
    and "decodeToken E c = Inr tok"
  shows "snd (getToken E config w) = Ret (Inr tok)
       \<and> trace (fst (getToken E config w))
           = trace w @ [MkdirAllEv ''credentials'' 448, OpenEv ''credentials/cache.json'',
                        ReadEv ''credentials/cache.json'']
       \<and> stdout (fst (getToken E config w)) = stdout w
       \<and> stdin (fst (getToken E config w)) = stdin w
       \<and> fs (fst (getToken E config w)) ''credentials/cache.json'' = Some (File m c)"
proof -
  let ?w1 = "w\<lparr>fs := fst (mkdirs (faults w) 448 [''credentials''] (fs w)),
               trace := trace w @ [MkdirAllEv ''credentials'' 448]\<rparr>"
  have f: "fs ?w1 (Clean ''credentials/cache.json'') = Some (File m c)"
    using assms(1) by (simp add: clean_cache mkdirs_cache del: mkdirs.simps)
  have "tokenFromFile E ''credentials/cache.json'' ?w1
          = (?w1\<lparr>trace := trace ?w1 @ [OpenEv (Clean ''credentials/cache.json''),
                                        ReadEv (Clean ''credentials/cache.json'')]\<rparr>,
             decodeToken E c)"
    using f assms(2,3) by (intro tokenFromFile_hit) (simp_all add: clean_cache)
  then have g: "getToken E config w
          = (?w1\<lparr>trace := trace ?w1 @ [OpenEv ''credentials/cache.json'',
                                        ReadEv ''credentials/cache.json'']\<rparr>, Ret (Inr tok))"
    using assms(4) by (simp add: getToken_def tokenCacheFile_eq clean_cache del: mkdirs.simps)
  show ?thesis
    using assms(1) by (simp add: g stdout_def mkdirs_cache del: mkdirs.simps)
qed

theorem getToken_cache_hit_witness:
  "fs exWorldCached ''credentials/cache.json'' = Some (File 384 ''{access_token:ya29.old}'')
   \<and> decodeToken exEnv ''{access_token:ya29.old}'' = Inr exCached
   \<and> snd (getToken exEnv exConfig exWorldCached) = Ret (Inr exCached)
   \<and> stdout (fst (getToken exEnv exConfig exWorldCached)) = []
   \<and> stdin (fst (getToken exEnv exConfig exWorldCached)) = [''4/AbCd'']"
proof -
  have a: "fs exWorldCached ''credentials/cache.json'' = Some (File 384 ''{access_token:ya29.old}'')"
    by (simp add: exWorldCached_def)
  have b: "faults exWorldCached (SysOpen ''credentials/cache.json'') = None"
    and c: "faults exWorldCached (SysRead ''credentials/cache.json'') = None"
    by (simp_all add: exWorldCached_def exWorld_def)
  have d: "decodeToken exEnv ''{access_token:ya29.old}'' = Inr exCached"
    by (simp add: exEnv_def)
  have e: "stdout exWorldCached = []" "stdin exWorldCached = [''4/AbCd'']"
    by (simp_all add: exWorldCached_def exWorld_def stdout_def)
  show ?thesis
    using getToken_cache_hit [OF a b c d, of exConfig] a d e by simp
qed



text \<open>
  C6. When the cache file is absent, or holds something that does not decode,
  \<^verbatim>\<open>getToken\<close> always prints the authorization URL and then reads a word from standard
  input. Each later step happens only if the one before it succeeded: with no word to
  read the process ends in a fatal error, nothing is exchanged and the cache file is
  as it was; when the exchange fails the process ends in a fatal error and the cache
  file is as it was; when the exchange succeeds the save is announced and the cache
  file is opened for writing, and \<^verbatim>\<open>getToken\<close> either returns the exchanged token or
  ends in the fatal error of the failed open. When moreover the cache directory exists
  or can be made, the file can be created and written and the token encodes,
  \<^verbatim>\<open>getToken\<close> returns the exchanged token and the cache file holds exactly the encoded
  token, whatever it held before.
\<close>

theorem getToken_cache_miss_flow:
  assumes miss: "fs w ''credentials/cache.json'' = None
                 \<or> (\<exists>m c e. fs w ''credentials/cache.json'' = Some (File m c)
                               \<and> decodeToken E c = Inl e)"
  shows "\<exists>pre post.
       set pre \<subseteq> {MkdirAllEv ''credentials'' 448, OpenEv ''credentials/cache.json'',
                    ReadEv ''credentials/cache.json''}
     \<and> trace (fst (getToken E config w))
         = trace w @ pre @ [StdoutEv (prompt E config), ScanEv] @ post
     \<and> (stdin w = [] \<longrightarrow>
           post = []
         \<and> snd (getToken E config w) = Fatal ''Unable to read authorization code EOF''
         \<and> fs (fst (getToken E config w)) ''credentials/cache.json''
             = fs w ''credentials/cache.json'')
     \<and> (\<forall>code rest e. stdin w = code # rest \<and> Exchange E config code = Inl e \<longrightarrow>
           post = [ExchangeEv config code]
         \<and> snd (getToken E config w) = Fatal (''Unable to retrieve token from web '' @ e)
         \<and> fs (fst (getToken E config w)) ''credentials/cache.json''
             = fs w ''credentials/cache.json'')
     \<and> (\<forall>code rest tok. stdin w = code # rest \<and> Exchange E config code = Inr tok \<longrightarrow>
           (\<exists>post'. post = [ExchangeEv config code, StdoutEv saving,
                             OpenFileEv ''credentials/cache.json'' 384] @ post')
         \<and> (snd (getToken E config w) = Ret (Inr tok)
              \<or> (\<exists>e. snd (getToken E config w) = Fatal (''Unable to cache oauth token: '' @ e)))
         \<and> (\<forall>s. (fs w ''credentials'' = None \<or> (\<exists>m. fs w ''credentials'' = Some (Dir m)))
                 \<and> faults w (SysMkdir ''credentials'') = None
                 \<and> faults w (SysCreate ''credentials/cache.json'') = None
                 \<and> faults w (SysWrite ''credentials/cache.json'') = None
                 \<and> encodeToken E tok = Inr s \<longrightarrow>
                   snd (getToken E config w) = Ret (Inr tok)
                 \<and> post = [ExchangeEv config code, StdoutEv saving,
                            OpenFileEv ''credentials/cache.json'' 384,
                            WriteEv ''credentials/cache.json'' (s @ newline)]
                 \<and> (\<exists>m'. fs (fst (getToken E config w)) ''credentials/cache.json''
                            = Some (File m' (s @ newline)))
                 \<and> stdin (fst (getToken E config w)) = rest))"
proof -
  let ?cache = "''credentials/cache.json''"
  obtain evs where evs: "set evs \<subseteq> {OpenEv ?cache, ReadEv ?cache}"
    and g: "getToken E config w
       = (case getTokenFromWeb E config
                 (w\<lparr>fs := fst (mkdirs (faults w) 448 [''credentials''] (fs w)),
                    trace := trace w @ MkdirAllEv ''credentials'' 448 # evs\<rparr>) of
            (w3, Fatal msg) \<Rightarrow> (w3, Fatal msg)
          | (w3, Ret tok) \<Rightarrow>
              (case saveToken E ?cache tok w3 of
                 (w4, Fatal msg) \<Rightarrow> (w4, Fatal msg)
               | (w4, Ret _) \<Rightarrow> (w4, Ret (Inr tok))))"
    using getToken_miss_web [OF miss, of config] by blast
  let ?pre = "MkdirAllEv ''credentials'' 448 # evs"
  let ?w2 = "w\<lparr>fs := fst (mkdirs (faults w) 448 [''credentials''] (fs w)),
               trace := trace w @ ?pre\<rparr>"
  have pre: "set ?pre \<subseteq> {MkdirAllEv ''credentials'' 448, OpenEv ?cache, ReadEv ?cache}"
    using evs by auto
  show ?thesis
  proof (cases "stdin w")
    case Nil
    then have "stdin ?w2 = []" by simp
    from getTokenFromWeb_eof [OF this, of E config]
    have gt: "getToken E config w
        = (?w2\<lparr>trace := trace ?w2 @ [StdoutEv (prompt E config), ScanEv]\<rparr>,
           Fatal ''Unable to read authorization code EOF'')"
      by (simp only: g prod.case outcome.case)
    have tr: "trace (fst (getToken E config w))
            = trace w @ ?pre @ [StdoutEv (prompt E config), ScanEv] @ []"
      by (simp add: gt del: mkdirs.simps)
    have out: "snd (getToken E config w) = Fatal ''Unable to read authorization code EOF''"
      by (simp add: gt del: mkdirs.simps)
    have same: "fs (fst (getToken E config w)) ?cache = fs w ?cache"
      by (simp add: gt mkdirs_cache del: mkdirs.simps)
    show ?thesis
      apply (rule exI [of _ ?pre])
      apply (rule exI [of _ "[]"])
      apply (intro conjI)
      subgoal by (rule pre)
      subgoal by (rule tr)
      subgoal using out same by simp
      subgoal using Nil by simp
      subgoal using Nil by simp
      done
  next
    case (Cons c r)
    then have inp: "stdin ?w2 = c # r" by simp
    show ?thesis
    proof (cases "Exchange E config c")
      case (Inl e)
      from getTokenFromWeb_exchange_fail [OF inp Inl]
      have gt: "getToken E config w
          = (?w2\<lparr>stdin := r, trace := trace ?w2 @ [StdoutEv (prompt E config), ScanEv,
                                                      ExchangeEv config c]\<rparr>,
             Fatal (''Unable to retrieve token from web '' @ e))"
        by (simp only: g prod.case outcome.case)
      have tr: "trace (fst (getToken E config w))
              = trace w @ ?pre @ [StdoutEv (prompt E config), ScanEv] @ [ExchangeEv config c]"
        by (simp add: gt del: mkdirs.simps)
      have out: "snd (getToken E config w)
                       = Fatal (''Unable to retrieve token from web '' @ e)"
        by (simp add: gt del: mkdirs.simps)
      have same: "fs (fst (getToken E config w)) ?cache = fs w ?cache"
        by (simp add: gt mkdirs_cache del: mkdirs.simps)
      show ?thesis
        apply (rule exI [of _ ?pre])
        apply (rule exI [of _ "[ExchangeEv config c]"])
        apply (intro conjI)
        subgoal by (rule pre)
        subgoal by (rule tr)
        subgoal using Cons by simp
        subgoal using Cons Inl out same by simp
        subgoal using Cons Inl by simp
        done
    next
      case (Inr tok)
      let ?w3 = "?w2\<lparr>stdin := r, trace := trace ?w2 @ [StdoutEv (prompt E config), ScanEv,
                                                       ExchangeEv config c]\<rparr>"
      have web: "getTokenFromWeb E config ?w2 = (?w3, Ret tok)"
        by (rule getTokenFromWeb_ok [OF inp Inr])
      obtain t post' r' where sv: "saveToken E ?cache tok ?w3
            = (?w3\<lparr>fs := t, trace := trace ?w3 @ [StdoutEv saving, OpenFileEv ?cache 384]
                                       @ post'\<rparr>, r')"
        and r': "r' = Ret () \<or> (\<exists>e. r' = Fatal (''Unable to cache oauth token: '' @ e))"
        using saveToken_frame [of E ?cache tok ?w3]
        by (auto simp add: clean_cache saving_def simp del: mkdirs.simps)
      let ?w4 = "?w3\<lparr>fs := t, trace := trace ?w3 @ [StdoutEv saving, OpenFileEv ?cache 384]
                                       @ post'\<rparr>"
      have gt: "getToken E config w
          = (?w4, case r' of Fatal msg \<Rightarrow> Fatal msg | Ret _ \<Rightarrow> Ret (Inr tok))"
        by (cases r') (simp_all only: g web sv prod.case outcome.case)
      have tr: "trace (fst (getToken E config w))
              = trace w @ ?pre @ [StdoutEv (prompt E config), ScanEv]
                  @ ([ExchangeEv config c, StdoutEv saving, OpenFileEv ?cache 384] @ post')"
        by (simp add: gt del: mkdirs.simps)
      have out: "snd (getToken E config w) = Ret (Inr tok)
              \<or> (\<exists>e. snd (getToken E config w) = Fatal (''Unable to cache oauth token: '' @ e))"
        using r' by (auto simp add: gt simp del: mkdirs.simps)
      have succ: "snd (getToken E config w) = Ret (Inr tok)
                 \<and> [ExchangeEv config c, StdoutEv saving, OpenFileEv ?cache 384] @ post'
                    = [ExchangeEv config c, StdoutEv saving, OpenFileEv ?cache 384,
                       WriteEv ?cache (s @ newline)]
                 \<and> (\<exists>m'. fs (fst (getToken E config w)) ?cache = Some (File m' (s @ newline)))
                 \<and> stdin (fst (getToken E config w)) = r"
        if dir: "fs w ''credentials'' = None \<or> (\<exists>m. fs w ''credentials'' = Some (Dir m))"
          and sys: "faults w (SysMkdir ''credentials'') = None"
             "faults w (SysCreate ?cache) = None" "faults w (SysWrite ?cache) = None"
          and enc: "encodeToken E tok = Inr s" for s
      proof -
        have dir1: "is_dir (fst (mkdirs (faults w) 448 [''credentials''] (fs w))) ''credentials''"
          using is_dir_after [of "faults w" "fs w" 448] sys(1) dir by (simp del: mkdirs.simps)
        have "\<exists>m'. (fs ?w3 (Clean ?cache) = None \<and> is_dir (fs ?w3) (parentDir (Clean ?cache))
                      \<and> m' = 384
                 \<or> (\<exists>c. fs ?w3 (Clean ?cache) = Some (File m' c)))"
          using miss dir1
          by (auto simp add: clean_cache parent_cache mkdirs_cache simp del: mkdirs.simps)
        then obtain m' where p: "fs ?w3 (Clean ?cache) = None
                      \<and> is_dir (fs ?w3) (parentDir (Clean ?cache)) \<and> m' = 384
                 \<or> (\<exists>c. fs ?w3 (Clean ?cache) = Some (File m' c))" by blast
        have save: "saveToken E ?cache tok ?w3
            = (?w3\<lparr>fs := (fs ?w3)(Clean ?cache \<mapsto> File m' (s @ newline)),
                   trace := trace ?w3 @ [StdoutEv (''Saving credential file to: '' @ ?cache @ newline),
                                        OpenFileEv (Clean ?cache) 384,
                                        WriteEv (Clean ?cache) (s @ newline)]\<rparr>, Ret ())"
          using sys(2,3) enc by (intro saveToken_ok [OF p]) (simp_all add: clean_cache)
        from sv save have eq: "?w4 = ?w3\<lparr>fs := (fs ?w3)(Clean ?cache \<mapsto> File m' (s @ newline)),
                   trace := trace ?w3 @ [StdoutEv (''Saving credential file to: '' @ ?cache @ newline),
                                        OpenFileEv (Clean ?cache) 384,
                                        WriteEv (Clean ?cache) (s @ newline)]\<rparr>"
          and r'': "r' = Ret ()" by simp_all
        from arg_cong [OF eq, of trace] have p': "post' = [WriteEv ?cache (s @ newline)]"
          by (simp add: clean_cache saving_def del: mkdirs.simps)
        from arg_cong [OF eq, of fs] have t: "t = (fs ?w3)(?cache \<mapsto> File m' (s @ newline))"
          by (simp add: clean_cache del: mkdirs.simps)
        show ?thesis
          by (simp add: gt r'' p' t del: mkdirs.simps)
      qed
      show ?thesis
        apply (rule exI [of _ ?pre])
        apply (rule exI [of _ "[ExchangeEv config c, StdoutEv saving, OpenFileEv ?cache 384] @ post'"])
        apply (intro conjI)
        subgoal by (rule pre)
        subgoal by (rule tr)
        subgoal using Cons by simp
        subgoal using Cons Inr by simp
        subgoal
        proof (intro allI impI)
          fix code rest tok'
          assume "stdin w = code # rest \<and> Exchange E config code = Inr tok'"
          with Cons Inr have e: "code = c" "rest = r" "tok' = tok" by simp_all
          show "(\<exists>post''. [ExchangeEv config c, StdoutEv saving, OpenFileEv ?cache 384] @ post'
                    = [ExchangeEv config code, StdoutEv saving, OpenFileEv ?cache 384] @ post'')
              \<and> (snd (getToken E config w) = Ret (Inr tok')
                   \<or> (\<exists>e. snd (getToken E config w)
                             = Fatal (''Unable to cache oauth token: '' @ e)))
              \<and> (\<forall>s. (fs w ''credentials'' = None \<or> (\<exists>m. fs w ''credentials'' = Some (Dir m)))
                 \<and> faults w (SysMkdir ''credentials'') = None
                 \<and> faults w (SysCreate ?cache) = None
                 \<and> faults w (SysWrite ?cache) = None
                 \<and> encodeToken E tok' = Inr s \<longrightarrow>
                   snd (getToken E config w) = Ret (Inr tok')
                 \<and> [ExchangeEv config c, StdoutEv saving, OpenFileEv ?cache 384] @ post'
                     = [ExchangeEv config code, StdoutEv saving, OpenFileEv ?cache 384,
                        WriteEv ?cache (s @ newline)]
                 \<and> (\<exists>m'. fs (fst (getToken E config w)) ?cache
                            = Some (File m' (s @ newline)))
                 \<and> stdin (fst (getToken E config w)) = rest)"
            unfolding e
          proof (intro conjI)
            show "\<exists>post''. [ExchangeEv config c, StdoutEv saving, OpenFileEv ?cache 384] @ post'
                    = [ExchangeEv config c, StdoutEv saving, OpenFileEv ?cache 384] @ post''"
              by blast
            show "snd (getToken E config w) = Ret (Inr tok)
                   \<or> (\<exists>e. snd (getToken E config w)
                             = Fatal (''Unable to cache oauth token: '' @ e))"
              by (rule out)
            show "\<forall>s. (fs w ''credentials'' = None \<or> (\<exists>m. fs w ''credentials'' = Some (Dir m)))
                 \<and> faults w (SysMkdir ''credentials'') = None
                 \<and> faults w (SysCreate ?cache) = None
                 \<and> faults w (SysWrite ?cache) = None
                 \<and> encodeToken E tok = Inr s \<longrightarrow>
                   snd (getToken E config w) = Ret (Inr tok)
                 \<and> [ExchangeEv config c, StdoutEv saving, OpenFileEv ?cache 384] @ post'
                     = [ExchangeEv config c, StdoutEv saving, OpenFileEv ?cache 384,
                        WriteEv ?cache (s @ newline)]
                 \<and> (\<exists>m'. fs (fst (getToken E config w)) ?cache
                            = Some (File m' (s @ newline)))
                 \<and> stdin (fst (getToken E config w)) = r"
            proof (intro allI impI)
              fix s
              assume c: "(fs w ''credentials'' = None \<or> (\<exists>m. fs w ''credentials'' = Some (Dir m)))
                 \<and> faults w (SysMkdir ''credentials'') = None
                 \<and> faults w (SysCreate ?cache) = None
                 \<and> faults w (SysWrite ?cache) = None
                 \<and> encodeToken E tok = Inr s"
              from c have c1: "fs w ''credentials'' = None \<or> (\<exists>m. fs w ''credentials'' = Some (Dir m))"
                and c2: "faults w (SysMkdir ''credentials'') = None"
                and c3: "faults w (SysCreate ?cache) = None"
                and c4: "faults w (SysWrite ?cache) = None"
                and c5: "encodeToken E tok = Inr s" by blast+
              show "snd (getToken E config w) = Ret (Inr tok)
                 \<and> [ExchangeEv config c, StdoutEv saving, OpenFileEv ?cache 384] @ post'
                     = [ExchangeEv config c, StdoutEv saving, OpenFileEv ?cache 384,
                        WriteEv ?cache (s @ newline)]
                 \<and> (\<exists>m'. fs (fst (getToken E config w)) ?cache
                            = Some (File m' (s @ newline)))
                 \<and> stdin (fst (getToken E config w)) = r"
                by (rule succ [OF c1 c2 c3 c4 c5])
            qed
          qed
        qed
        done
    qed
  qed
qed


text \<open>
  The flow is not performed on every cache miss: with the cache file absent and
  standard input at its end, the URL is printed, the read fails, and the process ends
  without an exchange, without a token and without a cache file.
\<close>

theorem getToken_cache_miss_counterexample:
  "fs exWorldNoInput ''credentials/cache.json'' = None
   \<and> snd (getToken exEnv exConfig exWorldNoInput)
       = Fatal ''Unable to read authorization code EOF''
   \<and> trace (fst (getToken exEnv exConfig exWorldNoInput))
       = [MkdirAllEv ''credentials'' 448, OpenEv ''credentials/cache.json'',
          StdoutEv (prompt exEnv exConfig), ScanEv]
   \<and> fs (fst (getToken exEnv exConfig exWorldNoInput)) ''credentials/cache.json'' = None"
  by (simp add: getToken_def tokenCacheFile_eq tokenFromFile_def getTokenFromWeb_def
        fmt_Print_def fmt_Scan_def os_Open_def emit_def Let_def clean_cache prompt_def
        exWorldNoInput_def exWorld_def)


theorem getToken_cache_miss_flow_witness:
  "fs exWorld ''credentials/cache.json'' = None
   \<and> stdin exWorld = [''4/AbCd'']
   \<and> Exchange exEnv exConfig ''4/AbCd'' = Inr exToken
   \<and> encodeToken exEnv exToken = Inr ''{access_token:ya29.new}''
   \<and> snd (getToken exEnv exConfig exWorld) = Ret (Inr exToken)
   \<and> (\<exists>m'. fs (fst (getToken exEnv exConfig exWorld)) ''credentials/cache.json''
               = Some (File m' (''{access_token:ya29.new}'' @ newline)))
   \<and> stdin (fst (getToken exEnv exConfig exWorld)) = []
   \<and> fs exWorldNoInput ''credentials/cache.json'' = None
   \<and> stdin exWorldNoInput = []
   \<and> snd (getToken exEnv exConfig exWorldNoInput)
       = Fatal ''Unable to read authorization code EOF''
   \<and> (\<exists>m c e. fs (exWorldStale\<lparr>stdin := [''expired'']\<rparr>) ''credentials/cache.json''
                   = Some (File m c) \<and> decodeToken exEnv c = Inl e)
   \<and> Exchange exEnv exConfig ''expired'' = Inl ''invalid_grant''
   \<and> snd (getToken exEnv exConfig (exWorldStale\<lparr>stdin := [''expired'']\<rparr>))
       = Fatal (''Unable to retrieve token from web '' @ ''invalid_grant'')
   \<and> fs (fst (getToken exEnv exConfig (exWorldStale\<lparr>stdin := [''expired'']\<rparr>)))
        ''credentials/cache.json'' = Some (File 384 ''garbage'')"
proof -
  let ?cache = "''credentials/cache.json''"
  have miss: "fs exWorld ?cache = None"
    by (simp add: exWorld_def)
  have dir: "fs exWorld ''credentials'' = None \<or> (\<exists>m. fs exWorld ''credentials'' = Some (Dir m))"
    by (simp add: exWorld_def)
  have sys: "faults exWorld (SysMkdir ''credentials'') = None"
    "faults exWorld (SysCreate ?cache) = None"
    "faults exWorld (SysWrite ?cache) = None"
    by (simp_all add: exWorld_def)
  have inp: "stdin exWorld = ''4/AbCd'' # []"
    by (simp add: exWorld_def)
  have exch: "Exchange exEnv exConfig ''4/AbCd'' = Inr exToken"
    by (simp add: exEnv_def)
  have enc: "encodeToken exEnv exToken = Inr ''{access_token:ya29.new}''"
    by (simp add: exEnv_def exToken_def)
  have a: "snd (getToken exEnv exConfig exWorld) = Ret (Inr exToken)
         \<and> (\<exists>m'. fs (fst (getToken exEnv exConfig exWorld)) ?cache
               = Some (File m' (''{access_token:ya29.new}'' @ newline)))
         \<and> stdin (fst (getToken exEnv exConfig exWorld)) = []"
    using getToken_cache_miss_flow [where w = exWorld and E = exEnv and config = exConfig,
                                    OF disjI1 [OF miss]]
          inp exch dir sys enc
    by blast
  have miss2: "fs exWorldNoInput ?cache = None"
    and inp2: "stdin exWorldNoInput = []"
    by (simp_all add: exWorldNoInput_def exWorld_def)
  have b: "snd (getToken exEnv exConfig exWorldNoInput)
             = Fatal ''Unable to read authorization code EOF''"
    using getToken_cache_miss_flow [where w = exWorldNoInput and E = exEnv and config = exConfig,
                                    OF disjI1 [OF miss2]]
          inp2
    by blast
  let ?w3 = "exWorldStale\<lparr>stdin := [''expired'']\<rparr>"
  have miss3: "\<exists>m c e. fs ?w3 ?cache = Some (File m c) \<and> decodeToken exEnv c = Inl e"
    by (simp add: exWorldStale_def exEnv_def)
  have inp3: "stdin ?w3 = ''expired'' # []"
    by simp
  have exch3: "Exchange exEnv exConfig ''expired'' = Inl ''invalid_grant''"
    by (simp add: exEnv_def)
  have old: "fs ?w3 ?cache = Some (File 384 ''garbage'')"
    by (simp add: exWorldStale_def)
  have c: "snd (getToken exEnv exConfig ?w3)
             = Fatal (''Unable to retrieve token from web '' @ ''invalid_grant'')
         \<and> fs (fst (getToken exEnv exConfig ?w3)) ?cache = fs ?w3 ?cache"
    using getToken_cache_miss_flow [where w = ?w3 and E = exEnv and config = exConfig,
                                    OF disjI2 [OF miss3]]
          inp3 exch3
    by blast
  show ?thesis
    using miss inp exch enc a miss2 inp2 b miss3 exch3 c old by simp
qed

text \<open>
  C3. \<^verbatim>\<open>saveToken\<close> checks the opening of the cache file and nothing after it. On a full
  disk the file is opened (and emptied), the write of the encoded token fails, and the
  error value of \<^verbatim>\<open>Encode\<close> is dropped: \<^verbatim>\<open>saveToken\<close> returns, \<^verbatim>\<open>getToken\<close> hands the
  token on, nothing but the announcement of the save has been printed, and the cache
  file is empty.
\<close>

theorem saveToken_write_failure_unreported:
  "snd (saveToken exEnv ''credentials/cache.json'' exToken exWorldFull) = Ret ()
   \<and> fs (fst (saveToken exEnv ''credentials/cache.json'' exToken exWorldFull))
        ''credentials/cache.json'' = Some (File 384 [])
   \<and> trace (fst (saveToken exEnv ''credentials/cache.json'' exToken exWorldFull))
        = [StdoutEv saving, OpenFileEv ''credentials/cache.json'' 384,
           WriteEv ''credentials/cache.json'' (''{access_token:ya29.new}'' @ newline)]
   \<and> snd (getToken exEnv exConfig exWorldFull) = Ret (Inr exToken)
   \<and> fs (fst (getToken exEnv exConfig exWorldFull)) ''credentials/cache.json''
        = Some (File 384 [])"
  by (simp add: saveToken_def getToken_def tokenCacheFile_eq tokenFromFile_def
        getTokenFromWeb_def fmt_Print_def fmt_Scan_def oauth2_Exchange_def os_Open_def
        os_OpenFile_def json_Encode_def file_write_def emit_def Let_def clean_cache
        parent_cache is_dir_def exWorldFull_def exWorld_def exEnv_def exToken_def saving_def)

section \<open>Traces\<close>

text \<open>
  Every call of the program other than the detection itself only adds events that are
  not detection calls.
\<close>

lemma quiet_refl: "quiet w w"
  by (simp add: quiet_def)

lemma quiet_trans: "quiet a b \<Longrightarrow> quiet b c \<Longrightarrow> quiet a c"
  by (auto simp add: quiet_def)

lemma quiet_emit: "\<not> is_detect e \<Longrightarrow> quiet w (emit e w)"
  by (simp add: quiet_def emit_def)

lemma quiet_fs_update: "quiet w (w'\<lparr>fs := t\<rparr>) = quiet w w'"
  by (simp add: quiet_def)

lemma quiet_stdin_update: "quiet w (w'\<lparr>stdin := r\<rparr>) = quiet w w'"
  by (simp add: quiet_def)

lemma quiet_detections: "quiet w w' \<Longrightarrow> detections w' = detections w"
  by (auto simp add: quiet_def detections_def)

lemma quiet_os_MkdirAll: "quiet w (fst (os_MkdirAll p m w))"
  by (simp add: os_MkdirAll_def Let_def quiet_fs_update quiet_emit is_detect_def
           split: prod.splits)

lemma quiet_os_Open: "quiet w (fst (os_Open p w))"
  by (simp add: os_Open_def Let_def quiet_emit is_detect_def split: option.splits)

lemma quiet_os_OpenFile: "quiet w (fst (os_OpenFile p m w))"
  by (simp add: os_OpenFile_def Let_def quiet_fs_update quiet_emit is_detect_def
           split: option.splits node.splits)

lemma quiet_file_read: "quiet w (fst (file_read f w))"
  by (simp add: file_read_def Let_def quiet_emit is_detect_def
           split: os_File.splits option.splits node.splits)

lemma quiet_file_write: "quiet w (fst (file_write f b w))"
  by (simp add: file_write_def Let_def quiet_fs_update quiet_emit is_detect_def
           split: os_File.splits option.splits node.splits)

lemma quiet_fmt_Print: "quiet w (fmt_Print s w)"
  by (simp add: fmt_Print_def quiet_emit is_detect_def)

lemma quiet_fmt_Println: "quiet w (fmt_Println s w)"
  by (simp add: fmt_Println_def quiet_fmt_Print)

lemma quiet_fmt_Scan: "quiet w (fst (fmt_Scan w))"
  by (simp add: fmt_Scan_def Let_def quiet_stdin_update quiet_emit is_detect_def
           split: list.splits)

lemma quiet_oauth2_Exchange: "quiet w (fst (oauth2_Exchange E config code w))"
  by (simp add: oauth2_Exchange_def quiet_emit is_detect_def)

lemma quiet_connect: "quiet w (fst (connect E c w))"
  by (simp add: connect_def Let_def quiet_emit is_detect_def split: option.splits)

lemma quiet_ioutil_ReadFile: "quiet w (fst (ioutil_ReadFile p w))"
proof (cases "os_Open p w")
  case (Pair w1 r)
  then have q: "quiet w w1" using quiet_os_Open [of w p] by simp
  show ?thesis
  proof (cases r)
    case (Inl e)
    with Pair q show ?thesis by (simp add: ioutil_ReadFile_def)
  next
    case (Inr f)
    with Pair have "fst (ioutil_ReadFile p w) = fst (file_read f w1)"
      by (simp add: ioutil_ReadFile_def)
    then show ?thesis using q quiet_file_read [of w1 f] by (auto intro: quiet_trans)
  qed
qed

lemma quiet_json_Decode: "quiet w (fst (json_Decode E f w))"
  using quiet_file_read [of w f]
  by (cases "file_read f w") (auto simp add: json_Decode_def split: sum.splits)

lemma quiet_json_Encode: "quiet w (fst (json_Encode E f tok w))"
  using quiet_file_write [of w f]
  by (cases "encodeToken E tok") (simp_all add: json_Encode_def quiet_refl)

lemma quiet_NewImageFromReader: "quiet w (fst (NewImageFromReader f w))"
  using quiet_file_read [of w f]
  by (cases "file_read f w") (auto simp add: NewImageFromReader_def split: sum.splits)

lemma quiet_NewImageAnnotatorClient: "quiet w (fst (NewImageAnnotatorClient E opt w))"
proof (cases opt)
  case (WithCredentialsFile path)
  obtain w1 r where rf: "ioutil_ReadFile path w = (w1, r)" by (cases "ioutil_ReadFile path w")
  then have q: "quiet w w1" using quiet_ioutil_ReadFile [of w path] by simp
  show ?thesis
  proof (cases r)
    case (Inl e)
    with rf q WithCredentialsFile show ?thesis by (simp add: NewImageAnnotatorClient_def)
  next
    case (Inr b)
    with rf WithCredentialsFile
    have "fst (NewImageAnnotatorClient E opt w) = fst (connect E (CredentialsJSON b) w1)"
      by (simp add: NewImageAnnotatorClient_def)
    then show ?thesis using q quiet_connect [of w1 E] by (auto intro: quiet_trans)
  qed
next
  case (WithTokenSource ts)
  then show ?thesis by (simp add: NewImageAnnotatorClient_def quiet_connect)
qed

lemma quiet_tokenCacheFile: "quiet w (fst (tokenCacheFile w))"
  by (simp add: tokenCacheFile_eq quiet_def is_detect_def del: mkdirs.simps)

lemma quiet_tokenFromFile: "quiet w (fst (tokenFromFile E p w))"
proof (cases "os_Open p w")
  case (Pair w1 r)
  then have q: "quiet w w1" using quiet_os_Open [of w p] by simp
  show ?thesis
  proof (cases r)
    case (Inl e)
    with Pair q show ?thesis by (simp add: tokenFromFile_def)
  next
    case (Inr f)
    with Pair have "fst (tokenFromFile E p w) = fst (json_Decode E f w1)"
      by (simp add: tokenFromFile_def)
    then show ?thesis using q quiet_json_Decode [of w1 E f] by (auto intro: quiet_trans)
  qed
qed

lemma quiet_saveToken: "quiet w (fst (saveToken E p tok w))"
proof -
  let ?w1 = "fmt_Print (''Saving credential file to: '' @ p @ newline) w"
  have q1: "quiet w ?w1" by (rule quiet_fmt_Print)
  obtain w2 r where o: "os_OpenFile p 384 ?w1 = (w2, r)" by (cases "os_OpenFile p 384 ?w1")
  then have q2: "quiet ?w1 w2" using quiet_os_OpenFile [of ?w1 p 384] by simp
  show ?thesis
  proof (cases r)
    case (Inl e)
    with o have "fst (saveToken E p tok w) = w2" by (simp add: saveToken_def)
    then show ?thesis using q1 q2 by (auto intro: quiet_trans)
  next
    case (Inr f)
    with o have "fst (saveToken E p tok w) = fst (json_Encode E f tok w2)"
      by (simp add: saveToken_def split: prod.splits)
    then show ?thesis using q1 q2 quiet_json_Encode [of w2 E f tok]
      by (auto intro: quiet_trans)
  qed
qed

lemma quiet_getTokenFromWeb: "quiet w (fst (getTokenFromWeb E config w))"
proof -
  let ?w1 = "fmt_Print (''Go to the following link in your browser then type the ''
                @ ''authorization code: '' @ newline
                @ AuthCodeURL E config ''state-token'' AccessTypeOffline @ newline) w"
  have q1: "quiet w ?w1" by (rule quiet_fmt_Print)
  obtain w2 r where o: "fmt_Scan ?w1 = (w2, r)" by (cases "fmt_Scan ?w1")
  then have q2: "quiet ?w1 w2" using quiet_fmt_Scan [of ?w1] by simp
  show ?thesis
  proof (cases r)
    case (Inl e)
    with o have "fst (getTokenFromWeb E config w) = w2" by (simp add: getTokenFromWeb_def)
    then show ?thesis using q1 q2 by (auto intro: quiet_trans)
  next
    case (Inr code)
    with o have "fst (getTokenFromWeb E config w) = fst (oauth2_Exchange E config code w2)"
      by (simp add: getTokenFromWeb_def split: prod.splits sum.splits)
    then show ?thesis using q1 q2 quiet_oauth2_Exchange [of w2 E config code]
      by (auto intro: quiet_trans)
  qed
qed

lemma quiet_getToken: "quiet w (fst (getToken E config w))"
proof -
  obtain w1 where tc: "tokenCacheFile w = (w1, (''credentials/cache.json'', None))"
    using tokenCacheFile_eq [of w] by simp
  then have q1: "quiet w w1" using quiet_tokenCacheFile [of w] by simp
  obtain w2 r where tf: "tokenFromFile E ''credentials/cache.json'' w1 = (w2, r)"
    by (cases "tokenFromFile E ''credentials/cache.json'' w1")
  then have q2: "quiet w1 w2" using quiet_tokenFromFile [of w1 E "''credentials/cache.json''"] by simp
  show ?thesis
  proof (cases r)
    case (Inr tok)
    with tc tf have "fst (getToken E config w) = w2" by (simp add: getToken_def)
    then show ?thesis using q1 q2 by (auto intro: quiet_trans)
  next
    case (Inl e)
    obtain w3 r3 where web: "getTokenFromWeb E config w2 = (w3, r3)"
      by (cases "getTokenFromWeb E config w2")
    then have q3: "quiet w2 w3" using quiet_getTokenFromWeb [of w2 E config] by simp
    show ?thesis
    proof (cases r3)
      case (Fatal m)
      with tc tf Inl web have "fst (getToken E config w) = w3" by (simp add: getToken_def)
      then show ?thesis using q1 q2 q3 by (auto intro: quiet_trans)
    next
      case (Ret tok)
      with tc tf Inl web
      have "fst (getToken E config w) = fst (saveToken E ''credentials/cache.json'' tok w3)"
        by (simp add: getToken_def split: prod.splits outcome.splits)
      then show ?thesis
        using q1 q2 q3 quiet_saveToken [of w3 E "''credentials/cache.json''" tok]
        by (auto intro: quiet_trans)
    qed
  qed
qed

lemma quiet_visionClient: "quiet w (fst (visionClient E fl w))"
proof (cases "flagServiceAccount fl = []")
  case False
  then show ?thesis
    using quiet_NewImageAnnotatorClient [of w E "WithCredentialsFile (flagServiceAccount fl)"]
    by (cases "NewImageAnnotatorClient E (WithCredentialsFile (flagServiceAccount fl)) w")
       (simp add: visionClient_def)
next
  case True
  obtain w1 r where rf: "ioutil_ReadFile (flagClientID fl) w = (w1, r)"
    by (cases "ioutil_ReadFile (flagClientID fl) w")
  then have q1: "quiet w w1" using quiet_ioutil_ReadFile [of w "flagClientID fl"] by simp
  show ?thesis
  proof (cases r)
    case (Inl e)
    with True rf q1 show ?thesis by (simp add: visionClient_def)
  next
    case (Inr b)
    show ?thesis
    proof (cases "ConfigFromJSON E b (DefaultAuthScopes E)")
      case (Inl e)
      with True rf Inr q1 show ?thesis by (simp add: visionClient_def)
    next
      case cfg: (Inr config)
      obtain w2 r2 where g: "getToken E config w1 = (w2, r2)" by (cases "getToken E config w1")
      then have q2: "quiet w1 w2" using quiet_getToken [of w1 E config] by simp
      show ?thesis
      proof (cases r2)
        case (Fatal m)
        with True rf Inr cfg g have "fst (visionClient E fl w) = w2"
          by (simp add: visionClient_def)
        then show ?thesis using q1 q2 by (auto intro: quiet_trans)
      next
        case (Ret x)
        show ?thesis
        proof (cases x)
          case (Inl e)
          with True rf Inr cfg g Ret have "fst (visionClient E fl w) = w2"
            by (simp add: visionClient_def)
          then show ?thesis using q1 q2 by (auto intro: quiet_trans)
        next
          case tk: (Inr tok)
          with True rf Inr cfg g Ret
          have "fst (visionClient E fl w)
                  = fst (NewImageAnnotatorClient E (WithTokenSource (TokenSource config tok)) w2)"
            by (simp add: visionClient_def split: prod.splits)
          then show ?thesis
            using q1 q2 quiet_NewImageAnnotatorClient
                          [of w2 E "WithTokenSource (TokenSource config tok)"]
            by (auto intro: quiet_trans)
        qed
      qed
    qed
  qed
qed

lemma printTexts_eq:
  "printTexts ts w = w\<lparr>trace := trace w @ map (\<lambda>t. StdoutEv (Description t @ newline)) ts\<rparr>"
  by (induction ts arbitrary: w) (simp_all add: fmt_Println_def fmt_Print_def emit_def)

section \<open>Errors that cannot occur\<close>

text \<open>
  C10. \<^verbatim>\<open>tokenCacheFile\<close> returns its path with a \<^verbatim>\<open>nil\<close> error in every world (the result
  of \<^verbatim>\<open>os.MkdirAll\<close> is dropped), and \<^verbatim>\<open>getToken\<close> never returns a non-nil error: it ends
  the process or returns a token. So the error branch inside \<^verbatim>\<open>getToken\<close> is never
  taken, and an error that \<^verbatim>\<open>visionClient\<close> returns on the client-ID path comes from
  reading the client-ID file, from parsing it, or from constructing the client, never
  from \<^verbatim>\<open>getToken\<close>.
\<close>

theorem getToken_never_returns_error:
  "snd (tokenCacheFile w) = (''credentials/cache.json'', None)
   \<and> (\<forall>e. snd (getToken E config w) \<noteq> Ret (Inl e))
   \<and> (flagServiceAccount fl = [] \<and> snd (visionClient E fl w) = Ret (Inl err)
        \<longrightarrow> (\<exists>e. err = ''unable to read client id file: '' @ e)
          \<or> (\<exists>e. err = ''unable to parse client id file to config: '' @ e)
          \<or> (\<exists>c. dial E c = Some err))"
  using getToken_no_error [of E config w] visionClient_oauth_errors [of fl E w err]
  by (simp add: tokenCacheFile_eq del: mkdirs.simps)

theorem getToken_never_returns_error_witness:
  "flagServiceAccount (exFlagsOAuth\<lparr>flagClientID := ''missing.json''\<rparr>) = []
   \<and> snd (visionClient exEnv (exFlagsOAuth\<lparr>flagClientID := ''missing.json''\<rparr>) exWorld)
        = Ret (Inl (''unable to read client id file: ''
                    @ ''open missing.json: no such file or directory''))
   \<and> ((\<exists>e. ''unable to read client id file: '' @ ''open missing.json: no such file or directory''
             = ''unable to read client id file: '' @ e)
        \<or> (\<exists>e. ''unable to read client id file: '' @ ''open missing.json: no such file or directory''
             = ''unable to parse client id file to config: '' @ e)
        \<or> (\<exists>c. dial exEnv c = Some (''unable to read client id file: ''
                    @ ''open missing.json: no such file or directory'')))"
proof -
  let ?fl = "exFlagsOAuth\<lparr>flagClientID := ''missing.json''\<rparr>"
  let ?err = "''unable to read client id file: '' @ ''open missing.json: no such file or directory''"
  have cl: "Clean ''missing.json'' = ''missing.json''" by code_simp
  have a: "flagServiceAccount ?fl = []" by (simp add: exFlagsOAuth_def)
  have b: "snd (visionClient exEnv ?fl exWorld) = Ret (Inl ?err)"
    by (simp add: visionClient_def ioutil_ReadFile_def os_Open_def emit_def Let_def cl
                  exFlagsOAuth_def exWorld_def)
  from getToken_never_returns_error [of exWorld exEnv exConfig ?fl ?err] a b
  show ?thesis by blast
qed

section \<open>Detection and output\<close>

text \<open>What \<^verbatim>\<open>main\<close> does once its flags have passed the checks, and the service-account run of the example.\<close>

lemma main_run:
  assumes "(flagServiceAccount fl = []) \<noteq> (flagClientID fl = [])" and "flagInput fl \<noteq> []"
    and "visionClient E fl w = (w1, Ret (Inr cl))"
    and "os_Open (flagInput fl) w1 = (w2, Inr f)"
    and "NewImageFromReader f w2 = (w3, Inr img)"
    and "annotateTexts E cl img None (- 1) = Inr texts"
  shows "main E fl w =
           (w3\<lparr>trace := trace w3 @ DetectTextsEv img None (- 1) # StdoutEv (''Text:'' @ newline)
                            # map (\<lambda>t. StdoutEv (Description t @ newline)) texts\<rparr>, Ret ())"
  using assms
  by (auto simp add: main_def DetectTexts_def printTexts_eq fmt_Println_def fmt_Print_def emit_def)

lemma main_success_reaches:
  assumes "snd (main E fl w) = Ret ()"
  shows "\<exists>w1 cl w2 f w3 img texts.
           (flagServiceAccount fl = []) \<noteq> (flagClientID fl = []) \<and> flagInput fl \<noteq> []
         \<and> visionClient E fl w = (w1, Ret (Inr cl))
         \<and> os_Open (flagInput fl) w1 = (w2, Inr f)
         \<and> NewImageFromReader f w2 = (w3, Inr img)
         \<and> annotateTexts E cl img None (- 1) = Inr texts"
  using assms
  by (auto simp add: main_def DetectTexts_def
           split: if_splits prod.splits outcome.splits sum.splits)

lemma clean_names:
  "Clean ''sa.json'' = ''sa.json''" "Clean ''client.json'' = ''client.json''"
  "Clean ''photo.png'' = ''photo.png''"
  by code_simp+

lemma ex_visionClient_SA:
  "visionClient exEnv exFlagsSA exWorld
     = (exWorld\<lparr>trace := [OpenEv ''sa.json'', ReadEv ''sa.json'',
                            DialEv (CredentialsJSON ''{service_account}'')]\<rparr>,
        Ret (Inr (ImageAnnotatorClient (CredentialsJSON ''{service_account}''))))"
  by (simp add: visionClient_def NewImageAnnotatorClient_def ioutil_ReadFile_def os_Open_def
        file_read_def connect_def emit_def Let_def clean_names exFlagsSA_def exWorld_def exEnv_def)

lemma main_valid:
  assumes "(flagServiceAccount fl = []) \<noteq> (flagClientID fl = [])" and "flagInput fl \<noteq> []"
  shows "main E fl w =
        (case visionClient E fl w of
           (w1, Fatal msg) \<Rightarrow> (w1, Fatal msg)
         | (w1, Ret (Inl err)) \<Rightarrow> (w1, Fatal (''Failed to create client: '' @ err))
         | (w1, Ret (Inr cl)) \<Rightarrow>
             (case os_Open (flagInput fl) w1 of
                (w2, Inl err) \<Rightarrow> (w2, Fatal (''Failed to read file: '' @ err))
              | (w2, Inr file) \<Rightarrow>
                  (case NewImageFromReader file w2 of
                     (w3, Inl err) \<Rightarrow> (w3, Fatal (''Failed to create image entity: '' @ err))
                   | (w3, Inr img) \<Rightarrow>
                       (case DetectTexts E cl img None (- 1) w3 of
                          (w4, Inl err) \<Rightarrow> (w4, Fatal (''Error detecting text: '' @ err))
                        | (w4, Inr texts) \<Rightarrow>
                            (printTexts texts (fmt_Println ''Text:'' w4), Ret ())))))"
proof -
  have a: "\<not> (flagServiceAccount fl = [] \<and> flagClientID fl = [])"
    and b: "\<not> (flagServiceAccount fl \<noteq> [] \<and> flagClientID fl \<noteq> [])"
    using assms(1) by auto
  show ?thesis
    unfolding main_def by (simp only: a b assms(2) if_False)
qed

lemma main_detections:
  "(detections (fst (main E fl w)) = detections w
     \<or> (\<exists>img. detections (fst (main E fl w)) = detections w @ [DetectTextsEv img None (- 1)]))
   \<and> (snd (main E fl w) = Ret () \<longrightarrow>
        (\<exists>img. detections (fst (main E fl w)) = detections w @ [DetectTextsEv img None (- 1)]))"
proof (cases "(flagServiceAccount fl = []) \<noteq> (flagClientID fl = []) \<and> flagInput fl \<noteq> []")
  case False
  then have "main E fl w = (w, Fatal ''either -service_account or -client_id must be specified'')
      \<or> main E fl w = (w, Fatal ''-service_account and -client_id are mutually exclusive'')
      \<or> main E fl w = (w, Fatal ''-input needs to be specified'')"
    by (auto simp add: main_def)
  then show ?thesis by auto
next
  case True
  then have mv: "main E fl w =
        (case visionClient E fl w of
           (w1, Fatal msg) \<Rightarrow> (w1, Fatal msg)
         | (w1, Ret (Inl err)) \<Rightarrow> (w1, Fatal (''Failed to create client: '' @ err))
         | (w1, Ret (Inr cl)) \<Rightarrow>
             (case os_Open (flagInput fl) w1 of
                (w2, Inl err) \<Rightarrow> (w2, Fatal (''Failed to read file: '' @ err))
              | (w2, Inr file) \<Rightarrow>
                  (case NewImageFromReader file w2 of
                     (w3, Inl err) \<Rightarrow> (w3, Fatal (''Failed to create image entity: '' @ err))
                   | (w3, Inr img) \<Rightarrow>
                       (case DetectTexts E cl img None (- 1) w3 of
                          (w4, Inl err) \<Rightarrow> (w4, Fatal (''Error detecting text: '' @ err))
                        | (w4, Inr texts) \<Rightarrow>
                            (printTexts texts (fmt_Println ''Text:'' w4), Ret ())))))"
    by (intro main_valid) simp_all
  obtain w1 r1 where vc: "visionClient E fl w = (w1, r1)" by (cases "visionClient E fl w")
  then have q1: "quiet w w1" using quiet_visionClient [of w E fl] by simp
  have d1: "detections w1 = detections w" by (rule quiet_detections [OF q1])
  show ?thesis
  proof (cases "\<exists>cl. r1 = Ret (Inr cl)")
    case False
    then have "\<exists>m. main E fl w = (w1, Fatal m)"
      using vc by (auto simp add: mv split: outcome.splits sum.splits)
    then show ?thesis using d1 by auto
  next
    case True
    then obtain cl where cl: "r1 = Ret (Inr cl)" by blast
    obtain w2 r2 where op: "os_Open (flagInput fl) w1 = (w2, r2)"
      by (cases "os_Open (flagInput fl) w1")
    then have q2: "quiet w1 w2" using quiet_os_Open [of w1 "flagInput fl"] by simp
    have d2: "detections w2 = detections w" using quiet_detections [OF q2] d1 by simp
    show ?thesis
    proof (cases r2)
      case (Inl e)
      then have "\<exists>m. main E fl w = (w2, Fatal m)"
        using vc cl op by (simp add: mv)
      then show ?thesis using d2 by auto
    next
      case (Inr f)
      obtain w3 r3 where im: "NewImageFromReader f w2 = (w3, r3)"
        by (cases "NewImageFromReader f w2")
      then have q3: "quiet w2 w3" using quiet_NewImageFromReader [of w2 f] by simp
      have d3: "detections w3 = detections w" using quiet_detections [OF q3] d2 by simp
      show ?thesis
      proof (cases r3)
        case (Inl e)
        then have "\<exists>m. main E fl w = (w3, Fatal m)"
          using vc cl op Inr im by (simp add: mv)
        then show ?thesis using d3 by auto
      next
        case img: (Inr img)
        have "detections (fst (main E fl w)) = detections w3 @ [DetectTextsEv img None (- 1)]"
          using vc cl op Inr im img
          by (simp add: mv DetectTexts_def printTexts_eq fmt_Println_def fmt_Print_def
                        emit_def detections_def is_detect_def comp_def
                   split: sum.splits)
        then show ?thesis using d3 by auto
      qed
    qed
  qed
qed

lemma main_reach_detection:
  assumes "(flagServiceAccount fl = []) \<noteq> (flagClientID fl = [])" and "flagInput fl \<noteq> []"
    and vc: "visionClient E fl w = (w1, Ret (Inr cl))"
    and op: "os_Open (flagInput fl) w1 = (w2, Inr f)"
    and im: "NewImageFromReader f w2 = (w3, Inr img)"
  shows "detections (fst (main E fl w)) = detections w @ [DetectTextsEv img None (- 1)]"
proof -
  have q1: "quiet w w1" using quiet_visionClient [of w E fl] vc by simp
  have q2: "quiet w1 w2" using quiet_os_Open [of w1 "flagInput fl"] op by simp
  have q3: "quiet w2 w3" using quiet_NewImageFromReader [of w2 f] im by simp
  have d3: "detections w3 = detections w"
    using quiet_detections [OF q1] quiet_detections [OF q2] quiet_detections [OF q3] by simp
  have "detections (fst (main E fl w)) = detections w3 @ [DetectTextsEv img None (- 1)]"
    using vc op im
    by (simp add: main_valid [OF assms(1,2)] DetectTexts_def printTexts_eq fmt_Println_def
                  fmt_Print_def emit_def detections_def is_detect_def comp_def
             split: sum.splits)
  then show ?thesis using d3 by simp
qed

lemma ex_main_SA:
  "snd (main exEnv exFlagsSA exWorld) = Ret ()"
  "os_Open (flagInput exFlagsSA)
      (exWorld\<lparr>trace := [OpenEv ''sa.json'', ReadEv ''sa.json'',
                            DialEv (CredentialsJSON ''{service_account}'')]\<rparr>)
     = (exWorld\<lparr>trace := [OpenEv ''sa.json'', ReadEv ''sa.json'',
                            DialEv (CredentialsJSON ''{service_account}''),
                            OpenEv ''photo.png'']\<rparr>, Inr (Fd ''photo.png''))"
  "NewImageFromReader (Fd ''photo.png'')
      (exWorld\<lparr>trace := [OpenEv ''sa.json'', ReadEv ''sa.json'',
                            DialEv (CredentialsJSON ''{service_account}''),
                            OpenEv ''photo.png'']\<rparr>)
     = (exWorld\<lparr>trace := [OpenEv ''sa.json'', ReadEv ''sa.json'',
                            DialEv (CredentialsJSON ''{service_account}''),
                            OpenEv ''photo.png'', ReadEv ''photo.png'']\<rparr>, Inr (Image ''PNG''))"
proof -
  let ?w1 = "exWorld\<lparr>trace := [OpenEv ''sa.json'', ReadEv ''sa.json'',
                            DialEv (CredentialsJSON ''{service_account}'')]\<rparr>"
  let ?w2 = "exWorld\<lparr>trace := [OpenEv ''sa.json'', ReadEv ''sa.json'',
                            DialEv (CredentialsJSON ''{service_account}''),
                            OpenEv ''photo.png'']\<rparr>"
  let ?w3 = "exWorld\<lparr>trace := [OpenEv ''sa.json'', ReadEv ''sa.json'',
                            DialEv (CredentialsJSON ''{service_account}''),
                            OpenEv ''photo.png'', ReadEv ''photo.png'']\<rparr>"
  let ?cl = "ImageAnnotatorClient (CredentialsJSON ''{service_account}'')"
  have a: "(flagServiceAccount exFlagsSA = []) \<noteq> (flagClientID exFlagsSA = [])"
    and b: "flagInput exFlagsSA \<noteq> []"
    by (simp_all add: exFlagsSA_def)
  show c: "os_Open (flagInput exFlagsSA) ?w1 = (?w2, Inr (Fd ''photo.png''))"
    by (simp add: os_Open_def Let_def emit_def clean_names exFlagsSA_def exWorld_def)
  show d: "NewImageFromReader (Fd ''photo.png'') ?w2 = (?w3, Inr (Image ''PNG''))"
    by (simp add: NewImageFromReader_def file_read_def Let_def emit_def exWorld_def)
  have e: "annotateTexts exEnv ?cl (Image ''PNG'') None (- 1) = Inr exTexts"
    by (simp add: exEnv_def)
  show "snd (main exEnv exFlagsSA exWorld) = Ret ()"
    by (simp add: main_run [OF a b ex_visionClient_SA c d e])
qed

text \<open>
  C4. When the run reaches the detection and the detection returns a list of
  annotations, \<^verbatim>\<open>main\<close> returns normally and what it adds to the trace after the
  detection call is the line \<^verbatim>\<open>Text:\<close> followed by one line per annotation, each the
  annotation's description as it is, in the order returned: standard output is what
  it was before the detection followed by exactly these lines. Every run that returns
  normally is such a run.
\<close>

theorem main_prints_texts:
  "(\<forall>w1 cl w2 f w3 img texts.
       (flagServiceAccount fl = []) \<noteq> (flagClientID fl = []) \<and> flagInput fl \<noteq> []
     \<and> visionClient E fl w = (w1, Ret (Inr cl))
     \<and> os_Open (flagInput fl) w1 = (w2, Inr f)
     \<and> NewImageFromReader f w2 = (w3, Inr img)
     \<and> annotateTexts E cl img None (- 1) = Inr texts
     \<longrightarrow> snd (main E fl w) = Ret ()
       \<and> trace (fst (main E fl w))
           = trace w3 @ DetectTextsEv img None (- 1) # StdoutEv (''Text:'' @ newline)
               # map (\<lambda>t. StdoutEv (Description t @ newline)) texts
       \<and> stdout (fst (main E fl w))
           = stdout w3 @ ''Text:'' @ newline
               @ concat (map (\<lambda>t. Description t @ newline) texts))
   \<and> (snd (main E fl w) = Ret () \<longrightarrow>
        (\<exists>w1 cl w2 f w3 img texts.
           (flagServiceAccount fl = []) \<noteq> (flagClientID fl = []) \<and> flagInput fl \<noteq> []
         \<and> visionClient E fl w = (w1, Ret (Inr cl))
         \<and> os_Open (flagInput fl) w1 = (w2, Inr f)
         \<and> NewImageFromReader f w2 = (w3, Inr img)
         \<and> annotateTexts E cl img None (- 1) = Inr texts))"
proof (intro conjI allI impI)
  fix w1 cl w2 f w3 img texts
  assume h: "(flagServiceAccount fl = []) \<noteq> (flagClientID fl = []) \<and> flagInput fl \<noteq> []
     \<and> visionClient E fl w = (w1, Ret (Inr cl))
     \<and> os_Open (flagInput fl) w1 = (w2, Inr f)
     \<and> NewImageFromReader f w2 = (w3, Inr img)
     \<and> annotateTexts E cl img None (- 1) = Inr texts"
  then have h1: "(flagServiceAccount fl = []) \<noteq> (flagClientID fl = [])"
    and h2: "flagInput fl \<noteq> []"
    and h3: "visionClient E fl w = (w1, Ret (Inr cl))"
    and h4: "os_Open (flagInput fl) w1 = (w2, Inr f)"
    and h5: "NewImageFromReader f w2 = (w3, Inr img)"
    and h6: "annotateTexts E cl img None (- 1) = Inr texts"
    by blast+
  have m: "main E fl w =
           (w3\<lparr>trace := trace w3 @ DetectTextsEv img None (- 1) # StdoutEv (''Text:'' @ newline)
                            # map (\<lambda>t. StdoutEv (Description t @ newline)) texts\<rparr>, Ret ())"
    by (rule main_run [OF h1 h2 h3 h4 h5 h6])
  show "snd (main E fl w) = Ret ()" by (simp add: m)
  show "trace (fst (main E fl w))
           = trace w3 @ DetectTextsEv img None (- 1) # StdoutEv (''Text:'' @ newline)
               # map (\<lambda>t. StdoutEv (Description t @ newline)) texts"
    by (simp add: m)
  show "stdout (fst (main E fl w))
           = stdout w3 @ ''Text:'' @ newline
               @ concat (map (\<lambda>t. Description t @ newline) texts)"
    by (simp add: m stdout_def comp_def)
next
  assume "snd (main E fl w) = Ret ()"
  then show "\<exists>w1 cl w2 f w3 img texts.
           (flagServiceAccount fl = []) \<noteq> (flagClientID fl = []) \<and> flagInput fl \<noteq> []
         \<and> visionClient E fl w = (w1, Ret (Inr cl))
         \<and> os_Open (flagInput fl) w1 = (w2, Inr f)
         \<and> NewImageFromReader f w2 = (w3, Inr img)
         \<and> annotateTexts E cl img None (- 1) = Inr texts"
    by (rule main_success_reaches)
qed

theorem main_prints_texts_witness:
  "snd (main exEnv exFlagsSA exWorld) = Ret ()
   \<and> annotateTexts exEnv (ImageAnnotatorClient (CredentialsJSON ''{service_account}''))
        (Image ''PNG'') None (- 1) = Inr exTexts
   \<and> map Description exTexts = [''hello world'', ''hello'', ''world'']
   \<and> stdout (fst (main exEnv exFlagsSA exWorld))
       = ''Text:'' @ newline @ ''hello world'' @ newline @ ''hello'' @ newline
           @ ''world'' @ newline
   \<and> (\<exists>w1 cl. visionClient exEnv exFlagsSA exWorld = (w1, Ret (Inr cl)))"
proof -
  let ?w1 = "exWorld\<lparr>trace := [OpenEv ''sa.json'', ReadEv ''sa.json'',
                            DialEv (CredentialsJSON ''{service_account}'')]\<rparr>"
  let ?w2 = "emit (OpenEv ''photo.png'') ?w1"
  let ?w3 = "emit (ReadEv ''photo.png'') ?w2"
  let ?cl = "ImageAnnotatorClient (CredentialsJSON ''{service_account}'')"
  have a: "(flagServiceAccount exFlagsSA = []) \<noteq> (flagClientID exFlagsSA = [])"
    and b: "flagInput exFlagsSA \<noteq> []"
    by (simp_all add: exFlagsSA_def)
  have c: "os_Open (flagInput exFlagsSA) ?w1 = (?w2, Inr (Fd ''photo.png''))"
    by (simp add: os_Open_def Let_def clean_names exFlagsSA_def exWorld_def)
  have d: "NewImageFromReader (Fd ''photo.png'') ?w2 = (?w3, Inr (Image ''PNG''))"
    by (simp add: NewImageFromReader_def file_read_def Let_def emit_def exWorld_def)
  have e: "annotateTexts exEnv ?cl (Image ''PNG'') None (- 1) = Inr exTexts"
    by (simp add: exEnv_def)
  have f: "stdout ?w3 = []"
    by (simp add: stdout_def emit_def)
  have g: "map Description exTexts = [''hello world'', ''hello'', ''world'']"
    by (simp add: exTexts_def)
  have h: "concat (map (\<lambda>t. Description t @ newline) exTexts)
             = ''hello world'' @ newline @ ''hello'' @ newline @ ''world'' @ newline"
    by (simp add: exTexts_def)
  from main_prints_texts [of exFlagsSA exEnv exWorld] a b ex_visionClient_SA c d e
  have i: "snd (main exEnv exFlagsSA exWorld) = Ret ()
       \<and> stdout (fst (main exEnv exFlagsSA exWorld))
           = stdout ?w3 @ ''Text:'' @ newline
               @ concat (map (\<lambda>t. Description t @ newline) exTexts)"
    by blast
  from main_prints_texts [of exFlagsSA exEnv exWorld] i
  have j: "\<exists>w1 cl. visionClient exEnv exFlagsSA exWorld = (w1, Ret (Inr cl))"
    by blast
  show ?thesis
    using i j e f g h by simp
qed

text \<open>
  C9. \<^verbatim>\<open>main\<close> makes at most one detection call, and it makes it with a nil image
  context and \<^verbatim>\<open>maxResults\<close> -1. Every run that returns normally has made the call, and
  every run that gets as far as an image makes it on that image.
\<close>

theorem main_detection_arguments:
  "(detections (fst (main E fl w)) = detections w
     \<or> (\<exists>img. detections (fst (main E fl w)) = detections w @ [DetectTextsEv img None (- 1)]))
   \<and> (snd (main E fl w) = Ret () \<longrightarrow>
        (\<exists>img. detections (fst (main E fl w)) = detections w @ [DetectTextsEv img None (- 1)]))
   \<and> (\<forall>w1 cl w2 f w3 img.
          (flagServiceAccount fl = []) \<noteq> (flagClientID fl = []) \<and> flagInput fl \<noteq> []
        \<and> visionClient E fl w = (w1, Ret (Inr cl))
        \<and> os_Open (flagInput fl) w1 = (w2, Inr f)
        \<and> NewImageFromReader f w2 = (w3, Inr img)
        \<longrightarrow> detections (fst (main E fl w)) = detections w @ [DetectTextsEv img None (- 1)])"
proof (intro conjI allI impI)
  show "detections (fst (main E fl w)) = detections w
     \<or> (\<exists>img. detections (fst (main E fl w)) = detections w @ [DetectTextsEv img None (- 1)])"
    using main_detections [of E fl w] by blast
next
  assume "snd (main E fl w) = Ret ()"
  then show "\<exists>img. detections (fst (main E fl w)) = detections w @ [DetectTextsEv img None (- 1)]"
    using main_detections [of E fl w] by blast
next
  fix w1 cl w2 f w3 img
  assume h: "(flagServiceAccount fl = []) \<noteq> (flagClientID fl = []) \<and> flagInput fl \<noteq> []
        \<and> visionClient E fl w = (w1, Ret (Inr cl))
        \<and> os_Open (flagInput fl) w1 = (w2, Inr f)
        \<and> NewImageFromReader f w2 = (w3, Inr img)"
  then have h1: "(flagServiceAccount fl = []) \<noteq> (flagClientID fl = [])"
    and h2: "flagInput fl \<noteq> []"
    and h3: "visionClient E fl w = (w1, Ret (Inr cl))"
    and h4: "os_Open (flagInput fl) w1 = (w2, Inr f)"
    and h5: "NewImageFromReader f w2 = (w3, Inr img)"
    by blast+
  show "detections (fst (main E fl w)) = detections w @ [DetectTextsEv img None (- 1)]"
    by (rule main_reach_detection [OF h1 h2 h3 h4 h5])
qed

theorem main_detection_arguments_witness:
  "snd (main exEnv exFlagsSA exWorld) = Ret ()
   \<and> detections exWorld = []
   \<and> (\<exists>w1 cl w2 f w3. visionClient exEnv exFlagsSA exWorld = (w1, Ret (Inr cl))
        \<and> os_Open (flagInput exFlagsSA) w1 = (w2, Inr f)
        \<and> NewImageFromReader f w2 = (w3, Inr (Image ''PNG'')))
   \<and> detections (fst (main exEnv exFlagsSA exWorld))
       = [DetectTextsEv (Image ''PNG'') None (- 1)]"
proof -
  have a: "(flagServiceAccount exFlagsSA = []) \<noteq> (flagClientID exFlagsSA = [])"
    and b: "flagInput exFlagsSA \<noteq> []"
    by (simp_all add: exFlagsSA_def)
  have d0: "detections exWorld = []"
    by (simp add: detections_def exWorld_def)
  from main_detection_arguments [of exEnv exFlagsSA exWorld]
       a b ex_visionClient_SA ex_main_SA(2) ex_main_SA(3)
  have "detections (fst (main exEnv exFlagsSA exWorld))
          = detections exWorld @ [DetectTextsEv (Image ''PNG'') None (- 1)]"
    by blast
  then show ?thesis
    using d0 ex_main_SA ex_visionClient_SA by auto
qed

section \<open>Credential resolution\<close>












end
